theory Spec2Isabelle
  imports Main "HOL-Library.Sublist" "HOL-Library.Product_Lexorder"
begin

section \<open>Python values shared by the modules\<close>

text \<open>
  The exceptions the modelled code can raise.  A function that can raise returns
  \<open>error + 'a\<close>, with \<open>Inl\<close> for the exception that leaves it.
  \<open>ProviderMessage\<close> is the plain \<open>Exception(obj['message'])\<close> of the extract script.
\<close>

datatype error =
    KeyError
  | ValueError
  | IndexError
  | TypeError
  | AttributeError
  | OverflowError
  | UnicodeDecodeError
  | CumulusConnectionError string
  | ProviderMessage string
  | LibraryError string

subsection \<open>String operations of Python used by the code\<close>

text \<open>\<open>sub in s\<close> on strings: \<open>sub\<close> occurs in \<open>s\<close> as a contiguous block.\<close>

fun py_in :: "string \<Rightarrow> string \<Rightarrow> bool" where
  "py_in sub [] = (sub = [])"
| "py_in sub (c # cs) = (prefix sub (c # cs) \<or> py_in sub cs)"

text \<open>
  \<open>s.split(sep)\<close> for a separator of at least one character (the code only passes the
  literals \<open>"::"\<close> and \<open>"/"\<close>): the text is cut at every occurrence of \<open>sep\<close>, found from
  the left and not overlapping; \<open>acc\<close> is the piece being collected.
\<close>

fun split_acc :: "string \<Rightarrow> string \<Rightarrow> string \<Rightarrow> string list" where
  "split_acc sep acc [] = [acc]"
| "split_acc sep acc (c # cs) =
     (if prefix sep (c # cs) then acc # split_acc sep [] (drop (length sep - 1) cs)
      else split_acc sep (acc @ [c]) cs)"

definition py_split :: "string \<Rightarrow> string \<Rightarrow> string list" where
  "py_split sep s = split_acc sep [] s"

text \<open>\<open>s.strip()\<close>: the whitespace of Python 2 byte strings is removed at both ends.\<close>

definition py_space :: "char \<Rightarrow> bool" where
  "py_space c = (c \<in> set [CHR '' '', CHR 0x09, CHR 0x0A, CHR 0x0B, CHR 0x0C, CHR 0x0D])"

definition py_strip :: "string \<Rightarrow> string" where
  "py_strip s = rev (dropWhile py_space (rev (dropWhile py_space s)))"

text \<open>
  \<open>s.decode()\<close> with the default codec of Python 2 (ASCII): a byte above 127 raises.
\<close>

definition py_decode :: "string \<Rightarrow> error + string" where
  "py_decode s = (if list_all (\<lambda>c. (of_char c :: nat) < 128) s then Inr s else Inl UnicodeDecodeError)"

text \<open>The digits \<open>\d\<close> matches (no UNICODE flag), and \<open>int\<close> of a digit string.\<close>

definition is_digit :: "char \<Rightarrow> bool" where
  "is_digit c = (c \<in> set ''0123456789'')"

definition digit_val :: "char \<Rightarrow> nat" where
  "digit_val c = of_char c - 48"

definition py_int :: "string \<Rightarrow> nat" where
  "py_int ds = foldl (\<lambda>n c. 10 * n + digit_val c) 0 ds"

text \<open>\<open>s.upper()\<close> on ASCII letters.\<close>

definition upper_char :: "char \<Rightarrow> char" where
  "upper_char c = (if c \<in> set ''abcdefghijklmnopqrstuvwxyz'' then char_of (of_char c - (32::nat)) else c)"

definition lower_char :: "char \<Rightarrow> char" where
  "lower_char c = (if c \<in> set ''ABCDEFGHIJKLMNOPQRSTUVWXYZ'' then char_of (of_char c + (32::nat)) else c)"

definition py_upper :: "string \<Rightarrow> string" where
  "py_upper s = map upper_char s"

definition py_lower :: "string \<Rightarrow> string" where
  "py_lower s = map lower_char s"


section \<open>rtsutils.go: the worker's diagnostic lines\<close>

text \<open>
  What \<open>publish\<close> receives: an integer for the progress bar or a string for the log.
\<close>

datatype event = Progress nat | Log string

text \<open>
  \<open>re.compile(r'\w*Progress: (?P<progress>\d+)\w*').search(go_str)\<close>, reduced to the group
  it captures.  The pattern needs the text \<open>Progress: \<close> followed by a digit; the word
  characters \<open>\w*\<close> in front of it end where \<open>Progress\<close> ends, so the leftmost match is at
  the first such place, and the greedy \<open>\d+\<close> takes all digits that follow.  \<open>None\<close> is the
  failed search.
\<close>

fun progress_search :: "string \<Rightarrow> string option" where
  "progress_search [] = None"
| "progress_search (c # cs) =
     (if prefix ''Progress: '' (c # cs) \<and> takeWhile is_digit (drop 10 (c # cs)) \<noteq> []
      then Some (takeWhile is_digit (drop 10 (c # cs)))
      else progress_search cs)"

text \<open>
  \<open>__parse_go_output(go_str, publish)\<close>: the result lists the calls of \<open>publish\<close> in order.
  A line with \<open>Progress:\<close> on which the search fails raises \<open>AttributeError\<close>
  (\<open>prog_re\<close> is \<open>None\<close>) before anything is published.
\<close>

definition parse_go_output :: "string \<Rightarrow> error + event list" where
  "parse_go_output go_str =
     (case (if py_in ''Progress:'' go_str
            then (case progress_search go_str of
                    None \<Rightarrow> Inl AttributeError
                  | Some ds \<Rightarrow> Inr [Progress (py_int ds)])
            else Inr [])
      of Inl e \<Rightarrow> Inl e
       | Inr published \<Rightarrow>
           if py_in ''Status: INITIATED'' go_str then Inr published
           else Inr (published @ [Log go_str]))"

text \<open>
  The real-time branch of \<open>get\<close> with a \<open>publish\<close> callback: every line of the worker's
  diagnostic channel is stripped, decoded and parsed as it arrives, and appended to the
  text \<open>stderr\<close>.  The state is the list of published events and the text so far; the
  function returns the events with the pair \<open>(stdout, stderr)\<close> the source returns.
\<close>

fun get_lines :: "string list \<Rightarrow> event list \<Rightarrow> string \<Rightarrow> error + (event list \<times> string)" where
  "get_lines [] evs err = Inr (evs, err)"
| "get_lines (line # rest) evs err =
     (case py_decode (py_strip line) of
        Inl e \<Rightarrow> Inl e
      | Inr go_str \<Rightarrow>
          (case parse_go_output go_str of
             Inl e \<Rightarrow> Inl e
           | Inr published \<Rightarrow> get_lines rest (evs @ published) (err @ line)))"

definition get_realtime :: "string \<Rightarrow> string list \<Rightarrow> error + (event list \<times> string \<times> string)" where
  "get_realtime out lines =
     (case get_lines lines [] [] of
        Inl e \<Rightarrow> Inl e
      | Inr (evs, err) \<Rightarrow> Inr (evs, out, err))"


section \<open>The datetime library, as far as the code uses it\<close>

text \<open>
  A naive \<open>datetime\<close> at second resolution: year, month, day, hour, minute, second.
  Python compares datetimes field by field in this order, which is the lexicographic
  order of the tuple.
\<close>

type_synonym datetime = "nat \<times> nat \<times> nat \<times> nat \<times> nat \<times> nat"

definition is_leap :: "nat \<Rightarrow> bool" where
  "is_leap y = (if y mod 400 = 0 then True else if y mod 100 = 0 then False else y mod 4 = 0)"

definition days_in_month :: "nat \<Rightarrow> nat \<Rightarrow> nat" where
  "days_in_month y m =
     (if m = 2 then (if is_leap y then 29 else 28)
      else if m \<in> {4, 6, 9, 11} then 30 else 31)"

definition days_before_year :: "nat \<Rightarrow> int" where
  "days_before_year y =
     (let y1 = int y - 1 in y1 * 365 + y1 div 4 - y1 div 100 + y1 div 400)"

definition days_before_month :: "nat \<Rightarrow> nat \<Rightarrow> int" where
  "days_before_month y m = int (sum_list (map (days_in_month y) [1..<m]))"

text \<open>\<open>toordinal\<close>, and the seconds from the start of day 0 that a difference is taken in.\<close>

definition toordinal :: "datetime \<Rightarrow> int" where
  "toordinal dt =
     (case dt of (y, m, d, _) \<Rightarrow> days_before_year y + days_before_month y m + int d)"

definition total_seconds :: "datetime \<Rightarrow> int" where
  "total_seconds dt =
     (case dt of (y, m, d, hh, mm, ss) \<Rightarrow>
        toordinal dt * 86400 + int hh * 3600 + int mm * 60 + int ss)"

text \<open>
  \<open>(a - b).days\<close>: a \<open>timedelta\<close> is normalised so that its seconds are in \<open>0..86399\<close>,
  hence its \<open>days\<close> is the floor of the difference in days, negative when \<open>a < b\<close>.
\<close>

definition timedelta_days :: "datetime \<Rightarrow> datetime \<Rightarrow> int" where
  "timedelta_days a b = (total_seconds a - total_seconds b) div 86400"

text \<open>
  \<open>dt + timedelta(days=1)\<close>: the same time on the next calendar day; the date after
  9999-12-31 does not exist and raises \<open>OverflowError\<close>.
\<close>

definition add_one_day :: "datetime \<Rightarrow> error + datetime" where
  "add_one_day dt =
     (case dt of (y, m, d, rest) \<Rightarrow>
        if d < days_in_month y m then Inr (y, m, d + 1, rest)
        else if m < 12 then Inr (y, m + 1, 1, rest)
        else if y < 9999 then Inr (y + 1, 1, 1, rest)
        else Inl OverflowError)"

subsection \<open>Format strings\<close>

text \<open>
  The directives the three formats of \<open>jutil\<close> use.  Any other text of a format is
  literal; a directive the model does not know is \<open>D_bad\<close>, which matches nothing.
\<close>

datatype directive = D_d | D_b | D_Y | D_H | D_M | D_lit char | D_bad

fun compile_format :: "string \<Rightarrow> directive list" where
  "compile_format [] = []"
| "compile_format [c] = [D_lit c]"
| "compile_format (c # e # cs) =
     (if c = CHR ''%'' then
        (if e = CHR ''d'' then D_d else if e = CHR ''b'' then D_b else if e = CHR ''Y'' then D_Y
         else if e = CHR ''H'' then D_H else if e = CHR ''M'' then D_M else D_bad) # compile_format cs
      else D_lit c # compile_format (e # cs))"

definition month_abbrs :: "string list" where
  "month_abbrs = [''jan'', ''feb'', ''mar'', ''apr'', ''may'', ''jun'',
                  ''jul'', ''aug'', ''sep'', ''oct'', ''nov'', ''dec'']"

fun index_of :: "'a \<Rightarrow> 'a list \<Rightarrow> nat option" where
  "index_of x [] = None"
| "index_of x (y # ys) = (if x = y then Some 0 else map_option Suc (index_of x ys))"

text \<open>
  \<open>strptime\<close> turns the format into a regular expression and matches it with
  backtracking.  \<open>alts d s\<close> lists, in the order the expression tries them, the ways
  directive \<open>d\<close> can match at the head of \<open>s\<close>: the value read and the rest of the text.
  The expressions are
  \<open>%d: 3[0-1]|[1-2]\d|0[1-9]|[1-9]| [1-9]\<close>, \<open>%H: 2[0-3]|[0-1]\d|\d\<close>, \<open>%M: [0-5]\d|\d\<close>,
  \<open>%Y: \d\d\d\d\<close>, \<open>%b\<close>: a month abbreviation of the C locale; letters match without case.
\<close>

definition two_digits :: "string \<Rightarrow> string \<Rightarrow> string \<Rightarrow> (nat \<times> string) list" where
  "two_digits firsts seconds s =
     (case s of
        a # b # r \<Rightarrow> if a \<in> set firsts \<and> b \<in> set seconds then [(10 * digit_val a + digit_val b, r)] else []
      | _ \<Rightarrow> [])"

definition one_digit :: "string \<Rightarrow> string \<Rightarrow> (nat \<times> string) list" where
  "one_digit digits s =
     (case s of a # r \<Rightarrow> if a \<in> set digits then [(digit_val a, r)] else [] | _ \<Rightarrow> [])"

fun alts :: "directive \<Rightarrow> string \<Rightarrow> (nat \<times> string) list" where
  "alts D_d s =
     two_digits ''3'' ''01'' s @ two_digits ''12'' ''0123456789'' s @ two_digits ''0'' ''123456789'' s
     @ one_digit ''123456789'' s
     @ (case s of a # r \<Rightarrow> if a = CHR '' '' then one_digit ''123456789'' r else [] | _ \<Rightarrow> [])"
| "alts D_H s =
     two_digits ''2'' ''0123'' s @ two_digits ''01'' ''0123456789'' s @ one_digit ''0123456789'' s"
| "alts D_M s = two_digits ''012345'' ''0123456789'' s @ one_digit ''0123456789'' s"
| "alts D_Y s =
     (if 4 \<le> length s \<and> list_all is_digit (take 4 s) then [(py_int (take 4 s), drop 4 s)] else [])"
| "alts D_b s =
     (case index_of (py_lower (take 3 s)) month_abbrs of
        Some i \<Rightarrow> [(i + 1, drop 3 s)]
      | None \<Rightarrow> [])"
| "alts (D_lit c) s =
     (case s of a # r \<Rightarrow> if lower_char a = lower_char c then [(0, r)] else [] | _ \<Rightarrow> [])"
| "alts D_bad s = []"

text \<open>The fields a match fills in, with the defaults of \<open>strptime\<close>.\<close>

record tm =
  tm_year :: nat
  tm_mon :: nat
  tm_mday :: nat
  tm_hour :: nat
  tm_min :: nat

definition tm_default :: tm where
  "tm_default = \<lparr>tm_year = 1900, tm_mon = 1, tm_mday = 1, tm_hour = 0, tm_min = 0\<rparr>"

fun set_field :: "directive \<Rightarrow> nat \<Rightarrow> tm \<Rightarrow> tm" where
  "set_field D_d v t = t\<lparr>tm_mday := v\<rparr>"
| "set_field D_b v t = t\<lparr>tm_mon := v\<rparr>"
| "set_field D_Y v t = t\<lparr>tm_year := v\<rparr>"
| "set_field D_H v t = t\<lparr>tm_hour := v\<rparr>"
| "set_field D_M v t = t\<lparr>tm_min := v\<rparr>"
| "set_field (D_lit c) v t = t"
| "set_field D_bad v t = t"

fun first_some :: "('a \<Rightarrow> 'b option) \<Rightarrow> 'a list \<Rightarrow> 'b option" where
  "first_some f [] = None"
| "first_some f (x # xs) = (case f x of Some y \<Rightarrow> Some y | None \<Rightarrow> first_some f xs)"

text \<open>
  The match itself: the first alternative of a directive after which the rest of the
  format still matches.  The result is the fields and the text left over.
\<close>

fun match_format :: "directive list \<Rightarrow> string \<Rightarrow> tm \<Rightarrow> (tm \<times> string) option" where
  "match_format [] s t = Some (t, s)"
| "match_format (d # ds) s t =
     first_some (\<lambda>vr. match_format ds (snd vr) (set_field d (fst vr) t)) (alts d s)"

text \<open>
  \<open>datetime.strptime(data, format)\<close>: \<open>ValueError\<close> when the text does not match, when
  text is left over, or when the fields are not a date (year 0, a day the month does not
  have).
\<close>

definition strptime :: "string \<Rightarrow> string \<Rightarrow> error + datetime" where
  "strptime data fmt =
     (case match_format (compile_format fmt) data tm_default of
        None \<Rightarrow> Inl ValueError
      | Some (t, rest) \<Rightarrow>
          if rest \<noteq> [] then Inl ValueError
          else if 1 \<le> tm_year t \<and> 1 \<le> tm_mday t \<and> tm_mday t \<le> days_in_month (tm_year t) (tm_mon t)
          then Inr (tm_year t, tm_mon t, tm_mday t, tm_hour t, tm_min t, 0)
          else Inl ValueError)"

text \<open>
  \<open>dt.strftime(format)\<close>: Python 2 refuses a year before 1900 with \<open>ValueError\<close>;
  \<open>%d\<close>, \<open>%H\<close> and \<open>%M\<close> print two digits, \<open>%Y\<close> the year in decimal (four digits from
  1900 on), \<open>%b\<close> the month abbreviation with a capital first letter.
\<close>

definition digit_char :: "nat \<Rightarrow> char" where
  "digit_char n = char_of (48 + n)"

definition pad2 :: "nat \<Rightarrow> string" where
  "pad2 n = [digit_char (n div 10 mod 10), digit_char (n mod 10)]"

definition pad4 :: "nat \<Rightarrow> string" where
  "pad4 n = [digit_char (n div 1000 mod 10), digit_char (n div 100 mod 10),
             digit_char (n div 10 mod 10), digit_char (n mod 10)]"

definition month_name :: "nat \<Rightarrow> string" where
  "month_name m =
     (case month_abbrs ! (m - 1) of c # cs \<Rightarrow> upper_char c # cs | [] \<Rightarrow> [])"

fun format_directive :: "datetime \<Rightarrow> directive \<Rightarrow> string" where
  "format_directive (y, m, d, hh, mm, ss) D_d = pad2 d"
| "format_directive (y, m, d, hh, mm, ss) D_b = month_name m"
| "format_directive (y, m, d, hh, mm, ss) D_Y = pad4 y"
| "format_directive (y, m, d, hh, mm, ss) D_H = pad2 hh"
| "format_directive (y, m, d, hh, mm, ss) D_M = pad2 mm"
| "format_directive (y, m, d, hh, mm, ss) (D_lit c) = [c]"
| "format_directive (y, m, d, hh, mm, ss) D_bad = []"

definition strftime :: "datetime \<Rightarrow> string \<Rightarrow> error + string" where
  "strftime dt fmt =
     (if fst dt < 1900 then Inl ValueError
      else Inr (concat (map (format_directive dt) (compile_format fmt))))"


section \<open>rtsutils.cavi.jython.jutil: the stored range of a product\<close>

text \<open>
  \<open>get_precip_record_datetimes(pathname)\<close>.  \<open>split_path[4]\<close> and \<open>split_path[5]\<close> raise
  \<open>IndexError\<close> on a path with fewer parts; \<open>e_part[-4:]\<close> is the last four characters,
  or the whole text when it is shorter.
\<close>

definition get_precip_record_datetimes :: "string \<Rightarrow> error + (datetime \<times> datetime)" where
  "get_precip_record_datetimes pathname =
     (let split_path = py_split ''/'' pathname in
      if length split_path \<le> 5 then Inl IndexError
      else
        let d_part = split_path ! 4; e_part = split_path ! 5 in
        case (if drop (length e_part - 4) e_part = ''2400''
              then (case strptime e_part ''%d%b%Y:2400'' of
                      Inl e \<Rightarrow> Inl e
                    | Inr temp_dt \<Rightarrow>
                        (case add_one_day temp_dt of
                           Inl e \<Rightarrow> Inl e
                         | Inr temp_dt' \<Rightarrow> strftime temp_dt' ''%d%b%Y:0000''))
              else Inr e_part)
        of Inl e \<Rightarrow> Inl e
         | Inr e_part' \<Rightarrow>
             (case strptime d_part ''%d%b%Y:%H%M'' of
                Inl e \<Rightarrow> Inl e
              | Inr path_start_dt \<Rightarrow>
                  (case strptime e_part' ''%d%b%Y:%H%M'' of
                     Inl e \<Rightarrow> Inl e
                   | Inr path_end_dt \<Rightarrow> Inr (path_start_dt, path_end_dt))))"

text \<open>
  \<open>get_existing_precip_data_range(dss_path, b_part, f_part)\<close>.  The DSS file is outside
  the code: \<open>catalog dss_path search_str\<close> stands for
  \<open>HecDss.open(dss_path).getCatalogedPathnames(search_str)\<close>.  The loop keeps the
  earliest start and the latest end seen; a datetime is always true, so \<open>not start_dt\<close>
  holds only for \<open>None\<close>.
\<close>

fun range_scan ::
  "string list \<Rightarrow> datetime option \<Rightarrow> datetime option \<Rightarrow> error + (datetime option \<times> datetime option)" where
  "range_scan [] start_dt end_dt = Inr (start_dt, end_dt)"
| "range_scan (path # paths) start_dt end_dt =
     (case get_precip_record_datetimes path of
        Inl e \<Rightarrow> Inl e
      | Inr (path_start_dt, path_end_dt) \<Rightarrow>
          range_scan paths
            (case start_dt of
               None \<Rightarrow> Some path_start_dt
             | Some s \<Rightarrow> if path_start_dt < s then Some path_start_dt else Some s)
            (case end_dt of
               None \<Rightarrow> Some path_end_dt
             | Some e \<Rightarrow> if path_end_dt > e then Some path_end_dt else Some e))"

definition get_existing_precip_data_range ::
  "(string \<Rightarrow> string \<Rightarrow> string list) \<Rightarrow> string \<Rightarrow> string \<Rightarrow> string
   \<Rightarrow> error + (datetime option \<times> datetime option)" where
  "get_existing_precip_data_range catalog dss_path b_part f_part =
     range_scan (catalog dss_path (''B='' @ b_part @ '' F='' @ f_part)) None None"


section \<open>rtsutils.cavi.jython.ui.cumulus: the Cumulus download manager\<close>

text \<open>
  The metadata dictionaries, with the keys the code reads.  \<open>last_forecast_version\<close> is
  \<open>None\<close> for an observed product.
\<close>

record product =
  p_id :: string
  p_name :: string
  dss_fpart :: string
  last_forecast_version :: "string option"

record watershed =
  w_id :: string
  w_name :: string
  office_symbol :: string

text \<open>What \<open>DictConfig(cls.cumulus_configs).read()\<close> returns.\<close>

record config =
  watershed_id :: string
  product_ids :: "string list"
  dss :: string

text \<open>
  The class attribute \<open>go_config\<close>, a dictionary: a key that is absent is \<open>None\<close>, and
  reading it raises \<open>KeyError\<close>.  \<open>After\<close> and \<open>Before\<close> are texts in \<open>ISO_FORMAT\<close> that the
  code reads with \<open>strptime\<close> and writes with \<open>strftime\<close> of the same format; the model
  keeps the datetime the text denotes.
\<close>

record go_config =
  StdOut :: "string option"
  Subcommand :: "string option"
  Endpoint :: "string option"
  ID :: "string option"
  Products :: "string list option"
  After :: "datetime option"
  Before :: "datetime option"
  Timeout :: "int option"

text \<open>
  The class attributes as a state.  \<open>reports\<close> collects the messages passed to
  \<open>report\<close> (without the wall-clock prefix).
\<close>

record cumulus =
  go_cfg :: go_config
  products_meta :: "product list option"
  watersheds_meta :: "watershed list option"
  reports :: "string list"

definition report :: "string \<Rightarrow> cumulus \<Rightarrow> cumulus" where
  "report msg s = s\<lparr>reports := reports s @ [msg]\<rparr>"

text \<open>Python truth of a list-or-\<open>None\<close> and of a string-or-\<open>None\<close>.\<close>

fun truthy :: "'a list option \<Rightarrow> bool" where
  "truthy None = False"
| "truthy (Some xs) = (xs \<noteq> [])"

subsection \<open>get_metadata\<close>

text \<open>
  The body of the \<open>try\<close> block.  \<open>go_get\<close> stands for \<open>go.get(cls.go_config, out_err=True,
  is_shell=False)\<close>, which sees the configuration as mutated; \<open>loads_p\<close> and \<open>loads_w\<close> stand
  for \<open>json.loads\<close> at the two result types.  The state returned with an exception is the
  state at the \<open>raise\<close>.
\<close>

definition get_metadata_try ::
  "(go_config \<Rightarrow> error + (string \<times> string)) \<Rightarrow> (string \<Rightarrow> error + product list)
   \<Rightarrow> (string \<Rightarrow> error + watershed list) \<Rightarrow> cumulus
   \<Rightarrow> (error + (product list option \<times> watershed list option)) \<times> cumulus" where
  "get_metadata_try go_get loads_p loads_w s0 =
     (let s1 = s0\<lparr>go_cfg := (go_cfg s0)\<lparr>StdOut := Some ''true'', Subcommand := Some ''get'',
                                         Endpoint := Some ''products''\<rparr>\<rparr>
      in case go_get (go_cfg s1) of
           Inl e \<Rightarrow> (Inl e, s1)
         | Inr (ps_out, stderr) \<Rightarrow>
             if py_in ''error'' stderr then (Inl (CumulusConnectionError stderr), s1)
             else (case loads_p ps_out of
                     Inl e \<Rightarrow> (Inl e, s1)
                   | Inr ps \<Rightarrow>
                       (let s2 = s1\<lparr>products_meta := Some ps\<rparr>;
                            s3 = s2\<lparr>go_cfg := (go_cfg s2)\<lparr>Endpoint := Some ''watersheds''\<rparr>\<rparr>
                        in case go_get (go_cfg s3) of
                             Inl e \<Rightarrow> (Inl e, s3)
                           | Inr (ws_out, stderr2) \<Rightarrow>
                               if py_in ''error'' stderr2 then (Inl (CumulusConnectionError stderr2), s3)
                               else (case loads_w ws_out of
                                       Inl e \<Rightarrow> (Inl e, s3)
                                     | Inr ws \<Rightarrow>
                                         (let s4 = report ''Metadata retrieved!'' (s3\<lparr>watersheds_meta := Some ws\<rparr>)
                                          in (Inr (products_meta s4, watersheds_meta s4), s4))))))"

text \<open>
  \<open>get_metadata\<close>: the early return on cached metadata, else the \<open>try\<close> block followed on
  every way out by the \<open>finally\<close> block, which puts the copy taken at entry back.
\<close>

definition get_metadata ::
  "(go_config \<Rightarrow> error + (string \<times> string)) \<Rightarrow> (string \<Rightarrow> error + product list)
   \<Rightarrow> (string \<Rightarrow> error + watershed list) \<Rightarrow> cumulus
   \<Rightarrow> (error + (product list option \<times> watershed list option)) \<times> cumulus" where
  "get_metadata go_get loads_p loads_w s =
     (if truthy (products_meta s) \<and> truthy (watersheds_meta s)
      then (Inr (products_meta s, watersheds_meta s), s)
      else
        (let s0 = report ''Retrieving Cumulus product and watershed metadata...'' s;
             orig_go_config = go_cfg s0
         in case get_metadata_try go_get loads_p loads_w s0 of
              (r, s') \<Rightarrow> (r, s'\<lparr>go_cfg := orig_go_config\<rparr>)))"

subsection \<open>Lookups in the metadata\<close>

text \<open>
  \<open>get_product_by_id\<close> and \<open>get_watershed_by_id\<close> search the lists that \<open>get_metadata\<close>
  returns; here the lists are arguments.  \<open>None\<close> is Python's \<open>None\<close>, and subscripting it
  raises \<open>TypeError\<close>.
\<close>

fun get_product_by_id :: "product list \<Rightarrow> string \<Rightarrow> product option" where
  "get_product_by_id [] product_id = None"
| "get_product_by_id (p # ps) product_id =
     (if p_id p = product_id then Some p else get_product_by_id ps product_id)"

fun get_watershed_by_id :: "watershed list \<Rightarrow> string \<Rightarrow> watershed option" where
  "get_watershed_by_id [] wid = None"
| "get_watershed_by_id (w # ws) wid =
     (if w_id w = wid then Some w else get_watershed_by_id ws wid)"

subsection \<open>adjust_dates_by_cache\<close>

text \<open>
  The loop over \<open>config["product_ids"]\<close>.  \<open>after\<close> and \<open>before\<close> are the local variables;
  \<open>continue\<close> skips a forecast product, \<open>break\<close> leaves the loop at the first observed
  product without stored data, and every other pass writes both bounds to \<open>go_config\<close>.
\<close>

function adjust_loop ::
  "(string \<Rightarrow> string \<Rightarrow> string list) \<Rightarrow> product list \<Rightarrow> string \<Rightarrow> string \<Rightarrow> string list
   \<Rightarrow> datetime \<Rightarrow> datetime \<Rightarrow> go_config \<Rightarrow> error + go_config" where
  "adjust_loop catalog products dss_path b_part [] after before cfg = Inr cfg"
| "adjust_loop catalog products dss_path b_part (product_id # rest) after before cfg =
     (case get_product_by_id products product_id of
        None \<Rightarrow> Inl TypeError
      | Some product \<Rightarrow>
          if truthy (last_forecast_version product)
          then adjust_loop catalog products dss_path b_part rest after before cfg
          else
            (case get_existing_precip_data_range catalog dss_path b_part (dss_fpart product) of
               Inl e \<Rightarrow> Inl e
             | Inr (Some data_start, Some data_end) \<Rightarrow>
                 (let after' = (if data_end > after \<and> after > data_start then data_end else after);
                      before' = (if data_end > before \<and> before > data_start then data_start else before)
                  in adjust_loop catalog products dss_path b_part rest after' before'
                       (cfg\<lparr>After := Some after', Before := Some before'\<rparr>))
             | Inr _ \<Rightarrow> Inr cfg))"
  by pat_completeness auto
termination
  by (relation "measure (\<lambda>(catalog, products, dss_path, b_part, ids, rest). length ids)") auto

definition adjust_dates_by_cache ::
  "(string \<Rightarrow> string \<Rightarrow> string list) \<Rightarrow> product list \<Rightarrow> watershed list \<Rightarrow> config
   \<Rightarrow> go_config \<Rightarrow> error + go_config" where
  "adjust_dates_by_cache catalog products watersheds cfgs cfg =
     (case After cfg of
        None \<Rightarrow> Inl KeyError
      | Some after \<Rightarrow>
          (case Before cfg of
             None \<Rightarrow> Inl KeyError
           | Some before \<Rightarrow>
               (case get_watershed_by_id watersheds (watershed_id cfgs) of
                  None \<Rightarrow> Inl TypeError
                | Some w \<Rightarrow>
                    adjust_loop catalog products (dss cfgs) (w_name w) (product_ids cfgs)
                      after before cfg)))"

subsection \<open>remove_observed_products\<close>

fun forecast_ids :: "product list \<Rightarrow> string list \<Rightarrow> error + string list" where
  "forecast_ids products [] = Inr []"
| "forecast_ids products (product_id # rest) =
     (case get_product_by_id products product_id of
        None \<Rightarrow> Inl TypeError
      | Some product \<Rightarrow>
          (case forecast_ids products rest of
             Inl e \<Rightarrow> Inl e
           | Inr ids \<Rightarrow>
               Inr (if last_forecast_version product \<noteq> None then product_id # ids else ids)))"

definition remove_observed_products :: "product list \<Rightarrow> go_config \<Rightarrow> error + go_config" where
  "remove_observed_products products cfg =
     (case Products cfg of
        None \<Rightarrow> Inl KeyError
      | Some ids \<Rightarrow>
          (case forecast_ids products ids of
             Inl e \<Rightarrow> Inl e
           | Inr fc \<Rightarrow> Inr (cfg\<lparr>Products := Some fc\<rparr>)))"

subsection \<open>execute\<close>

text \<open>
  The timeout of the \<open>else\<close> branch: \<open>totalTime = after - before\<close>,
  \<open>timeout = int(totalTime.days * 20)\<close>, raised to 300 when below.
\<close>

definition window_timeout :: "datetime \<Rightarrow> datetime \<Rightarrow> int" where
  "window_timeout after before =
     (let timeout = timedelta_days after before * 20
      in if timeout < 300 then 300 else timeout)"

text \<open>
  The \<open>use_cache\<close> branch.  \<open>None\<close> is the early \<open>return\<close> ("No product downloads
  required"); otherwise the configuration the worker is started with.
\<close>

definition execute_use_cache ::
  "(string \<Rightarrow> string \<Rightarrow> string list) \<Rightarrow> product list \<Rightarrow> watershed list \<Rightarrow> config
   \<Rightarrow> go_config \<Rightarrow> error + go_config option" where
  "execute_use_cache catalog products watersheds cfgs cfg =
     (case adjust_dates_by_cache catalog products watersheds cfgs cfg of
        Inl e \<Rightarrow> Inl e
      | Inr cfg1 \<Rightarrow>
          (case After cfg1 of
             None \<Rightarrow> Inl KeyError
           | Some after \<Rightarrow>
               (case Before cfg1 of
                  None \<Rightarrow> Inl KeyError
                | Some before \<Rightarrow>
                    if before \<le> after then
                      (case remove_observed_products products cfg1 of
                         Inl e \<Rightarrow> Inl e
                       | Inr cfg2 \<Rightarrow> if truthy (Products cfg2) then Inr (Some cfg2) else Inr None)
                    else Inr (Some (cfg1\<lparr>Timeout := Some (window_timeout after before)\<rparr>)))))"

text \<open>
  What a run ends in.  \<open>Aborted\<close> is the early return, \<open>Failed\<close> carries the text shown as
  "Program Error", \<open>Completed\<close> the path handed to \<open>jutil.convert_dss\<close>.
\<close>

datatype run_result = Aborted | Failed string | Completed string

text \<open>
  The part of \<open>execute\<close> after \<open>go.get\<close> has returned \<open>(stdout, stderr)\<close>.
  \<open>stderr.split("::")[-1]\<close> is the last piece (a split is never empty);
  \<open>_, file_path = stdout.split("::")\<close> raises \<open>ValueError\<close> unless there are two pieces.
\<close>

definition execute_result :: "string \<Rightarrow> string \<Rightarrow> error + run_result" where
  "execute_result stdout stderr =
     (if py_in ''error'' stderr then Inr (Failed (last (py_split ''::'' stderr)))
      else
        (case py_split ''::'' stdout of
           [_, file_path] \<Rightarrow> Inr (Completed file_path)
         | _ \<Rightarrow> Inl ValueError))"

text \<open>
  \<open>execute(use_cache)\<close>.  \<open>worker cfg\<close> stands for the subprocess behind \<open>go.get\<close>: what it
  writes to its result channel and the lines of its diagnostic channel for the request
  \<open>cfg\<close>.  The result carries the published events.
\<close>

fun product_names :: "product list \<Rightarrow> string list \<Rightarrow> error + string list" where
  "product_names products [] = Inr []"
| "product_names products (product_id # rest) =
     (case get_product_by_id products product_id of
        None \<Rightarrow> Inl TypeError
      | Some product \<Rightarrow>
          (case product_names products rest of
             Inl e \<Rightarrow> Inl e
           | Inr names \<Rightarrow> Inr (p_name product # names)))"

definition execute ::
  "(go_config \<Rightarrow> string \<times> string list) \<Rightarrow> (string \<Rightarrow> string \<Rightarrow> string list)
   \<Rightarrow> product list \<Rightarrow> watershed list \<Rightarrow> config \<Rightarrow> bool \<Rightarrow> go_config
   \<Rightarrow> error + (run_result \<times> event list)" where
  "execute worker catalog products watersheds cfgs use_cache cfg0 =
     (let cfg = cfg0\<lparr>StdOut := Some ''true'', Subcommand := Some ''grid'',
                     Endpoint := Some ''deprecated/anonymous_downloads'',
                     ID := Some (watershed_id cfgs), Products := Some (product_ids cfgs)\<rparr>
      in case product_names products (product_ids cfgs) of
           Inl e \<Rightarrow> Inl e
         | Inr names \<Rightarrow>
             if After cfg = None \<or> Before cfg = None then Inl KeyError
             else
               (case (if use_cache then execute_use_cache catalog products watersheds cfgs cfg
                      else Inr (Some cfg)) of
                  Inl e \<Rightarrow> Inl e
                | Inr None \<Rightarrow> Inr (Aborted, [])
                | Inr (Some cfg') \<Rightarrow>
                    (case get_realtime (fst (worker cfg')) (snd (worker cfg')) of
                       Inl e \<Rightarrow> Inl e
                     | Inr (evs, stdout, stderr) \<Rightarrow>
                         (case execute_result stdout stderr of
                            Inl e \<Rightarrow> Inl e
                          | Inr r \<Rightarrow> Inr (r, evs)))))"


section \<open>watershed_scripts.access_water_extract: the ingestion loop\<close>

text \<open>
  A decoded object of the record stream, with the keys the script reads: \<open>message\<close> is
  present in the provider's error object only.
\<close>

record site =
  message :: "string option"
  code :: string
  site_number :: string
  times :: "string list"
  "values" :: "int list"

text \<open>The container handed to the store, with the attributes \<open>put_to_dss\<close> sets.\<close>

record tsc =
  fullName :: string
  location :: string
  parameter :: string
  tsc_type :: string
  version :: string
  interval :: "int option"
  units :: string
  tsc_times :: "int list"
  tsc_values :: "int list"
  numberValues :: nat
  startTime :: int
  endTime :: int

text \<open>
  What lies outside the script: \<open>json.loads\<close> and the HEC library.  Each call that can
  raise returns a sum; \<open>dss_put tsc store\<close> is \<open>dss.put(tsc)\<close> on the open file, here \<open>store\<close>.
\<close>

record 'dss hec =
  json_loads :: "string \<Rightarrow> error + site"
  HecTime_value :: "string \<Rightarrow> int"
  getEPartFromIntervalMinutes :: "int option \<Rightarrow> error + string"
  makeAscending :: "tsc \<Rightarrow> error + tsc"
  isIregular :: "tsc \<Rightarrow> error + bool"
  snapToRegularTimeSeries :: "tsc \<Rightarrow> string \<Rightarrow> error + tsc"
  dss_put :: "tsc \<Rightarrow> 'dss \<Rightarrow> error + 'dss"

text \<open>Parameter, unit, data type and DSS F-part for each code.\<close>

definition usgs_code :: "(string \<times> (string \<times> string \<times> string \<times> string)) list" where
  "usgs_code =
     [(''00065'', (''Stage'', ''feet'', ''inst-val'', ''a2w'')),
      (''00061'', (''Flow'', ''cfs'', ''per-aver'', ''a2w'')),
      (''00060'', (''Flow'', ''cfs'', ''inst-val'', ''a2w''))]"

text \<open>
  The loop that finds the smallest step.  In Python 2 \<open>ts < None\<close> is false, so the first
  step is taken through \<open>timestep_min is None\<close>.
\<close>

fun timestep_loop :: "int list \<Rightarrow> int option \<Rightarrow> int option" where
  "timestep_loop (a # b # rest) timestep_min =
     timestep_loop (b # rest)
       (let ts = \<bar>b - a\<bar>
        in case timestep_min of
             None \<Rightarrow> Some ts
           | Some m \<Rightarrow> if ts < m then Some ts else Some m)"
| "timestep_loop ts timestep_min = timestep_min"

text \<open>
  \<open>put_to_dss(site, dss)\<close>, with \<open>store\<close> for the open file \<open>dss\<close>, in two parts.
  \<open>put_to_dss_container\<close> is the code before the \<open>try\<close>: the lookup in \<open>usgs_code\<close>
  (\<open>KeyError\<close> for a code that is not there), the times, the smallest step and its
  E-part, the path and the unpacking of its six parts (\<open>ValueError\<close> for any other
  number), the container with \<open>times[0]\<close> (\<open>IndexError\<close> on an empty list), and the
  snap to a regular series.  Every exception there leaves the function.
\<close>

definition put_to_dss_container :: "'dss hec \<Rightarrow> site \<Rightarrow> error + tsc" where
  "put_to_dss_container lib st =
     (case map_of usgs_code (code st) of
        None \<Rightarrow> Inl KeyError
      | Some (param, unit, data_type, vers) \<Rightarrow>
          (let ts = map (HecTime_value lib) (times st);
               timestep_min = timestep_loop ts None
           in case getEPartFromIntervalMinutes lib timestep_min of
                Inl e \<Rightarrow> Inl e
              | Inr epart \<Rightarrow>
                  (let pathname = py_upper (''//'' @ site_number st @ ''/'' @ param @ ''//'' @ epart
                                            @ ''/'' @ vers @ ''/'')
                   in case butlast (tl (py_split ''/'' pathname)) of
                        [apart, bpart, cpart, _, _, fpart] \<Rightarrow>
                          (if ts = [] then Inl IndexError
                           else
                             (let c = \<lparr>fullName = pathname, location = apart, parameter = param,
                                       tsc_type = data_type, version = vers, interval = timestep_min,
                                       units = unit, tsc_times = ts, tsc_values = values st,
                                       numberValues = length (times st), startTime = hd ts,
                                       endTime = last ts\<rparr>
                              in case makeAscending lib c of
                                   Inl e \<Rightarrow> Inl e
                                 | Inr c1 \<Rightarrow>
                                     (case isIregular lib c1 of
                                        Inl e \<Rightarrow> Inl e
                                      | Inr irregular \<Rightarrow>
                                          if irregular then snapToRegularTimeSeries lib c1 epart
                                          else Inr c1)))
                      | _ \<Rightarrow> Inl ValueError)))"

text \<open>
  The \<open>try\<close> around \<open>dss.put(tsc)\<close>: an exception there is printed and gives the
  message the function returns, with the store as it was; otherwise nothing is
  returned.  The result is what was printed, the returned message and the store.
\<close>

datatype printed = Text string | Exc error

definition put_to_dss ::
  "'dss hec \<Rightarrow> site \<Rightarrow> 'dss \<Rightarrow> error + (printed list \<times> string option \<times> 'dss)" where
  "put_to_dss lib st store =
     (case put_to_dss_container lib st of
        Inl e \<Rightarrow> Inl e
      | Inr c \<Rightarrow>
          (case dss_put lib c store of
             Inl ex \<Rightarrow> Inr ([Exc ex], Some (''Site: \"'' @ site_number st @ ''\" not saved to DSS''), store)
           | Inr store' \<Rightarrow> Inr ([], None, store')))"

text \<open>
  The loop over the bytes of the worker's output.  Every byte is appended to
  \<open>byte_array\<close>; at a byte \<open>}\<close> the buffer is printed, decoded with \<open>json.loads\<close> and
  emptied, an object with a \<open>message\<close> raises, and any other object goes to
  \<open>put_to_dss\<close>, whose message is printed when there is one.  The state is the buffer,
  the store and what has been printed; an exception ends the loop.
\<close>

fun main_loop ::
  "'dss hec \<Rightarrow> string \<Rightarrow> string \<Rightarrow> 'dss \<Rightarrow> printed list \<Rightarrow> error + (string \<times> 'dss \<times> printed list)" where
  "main_loop lib [] byte_array store out = Inr (byte_array, store, out)"
| "main_loop lib (b # bs) byte_array store out =
     (if b = CHR ''}'' then
        (case json_loads lib (byte_array @ [b]) of
           Inl e \<Rightarrow> Inl e
         | Inr obj \<Rightarrow>
             (case message obj of
                Some m \<Rightarrow> Inl (ProviderMessage m)
              | None \<Rightarrow>
                  (case put_to_dss lib obj store of
                     Inl e \<Rightarrow> Inl e
                   | Inr (pr, msg, store') \<Rightarrow>
                       main_loop lib bs [] store'
                         (out @ [Text (byte_array @ [b])] @ pr
                          @ (case msg of None \<Rightarrow> [] | Some m \<Rightarrow> [Text m])))))
      else main_loop lib bs (byte_array @ [b]) store out)"

section \<open>Predicates used to state the properties\<close>

text \<open>The product with this id is known and is treated as a forecast by the loop.\<close>

definition skipped_as_forecast :: "product list \<Rightarrow> string \<Rightarrow> bool" where
  "skipped_as_forecast products i =
     (case get_product_by_id products i of
        None \<Rightarrow> False
      | Some p \<Rightarrow> truthy (last_forecast_version p))"

text \<open>
  The product with this id is known, and it is a forecast, or its stored range is read
  without an exception.
\<close>

definition consulted_ok ::
  "(string \<Rightarrow> string \<Rightarrow> string list) \<Rightarrow> product list \<Rightarrow> string \<Rightarrow> string \<Rightarrow> string \<Rightarrow> bool" where
  "consulted_ok catalog products dss_path b_part i =
     (case get_product_by_id products i of
        None \<Rightarrow> False
      | Some p \<Rightarrow>
          if truthy (last_forecast_version p) then True
          else (case get_existing_precip_data_range catalog dss_path b_part (dss_fpart p) of
                  Inl e \<Rightarrow> False
                | Inr r \<Rightarrow> True))"

text \<open>
  The product with this id is known, and it is a forecast, or it has no stored data, or
  its stored range lies at or before \<open>after\<close> or at or after \<open>before\<close>.
\<close>

definition no_overlap ::
  "(string \<Rightarrow> string \<Rightarrow> string list) \<Rightarrow> product list \<Rightarrow> string \<Rightarrow> string
   \<Rightarrow> datetime \<Rightarrow> datetime \<Rightarrow> string \<Rightarrow> bool" where
  "no_overlap catalog products dss_path b_part after before i =
     (case get_product_by_id products i of
        None \<Rightarrow> False
      | Some p \<Rightarrow>
          if truthy (last_forecast_version p) then True
          else (case get_existing_precip_data_range catalog dss_path b_part (dss_fpart p) of
                  Inl e \<Rightarrow> False
                | Inr (Some data_start, Some data_end) \<Rightarrow> data_end \<le> after \<or> before \<le> data_start
                | Inr _ \<Rightarrow> True))"

text \<open>The product with this id is known and \<open>remove_observed_products\<close> keeps it.\<close>

definition kept_as_forecast :: "product list \<Rightarrow> string \<Rightarrow> bool" where
  "kept_as_forecast products i =
     (case get_product_by_id products i of
        None \<Rightarrow> False
      | Some p \<Rightarrow> last_forecast_version p \<noteq> None)"

text \<open>
  What a match of a date format leaves in the fields it does not read, and the ranges of
  the month and the year it reads.
\<close>

definition date_fields_ok :: "tm \<Rightarrow> bool" where
  "date_fields_ok t =
     (tm_hour t = 0 \<and> tm_min t = 0 \<and> 1 \<le> tm_mon t \<and> tm_mon t \<le> 12 \<and> tm_year t \<le> 9999)"

text \<open>
  The product with this id is known, and it is a forecast or has stored data, so that the
  loop goes on to the next product.
\<close>

definition passed_by_loop ::
  "(string \<Rightarrow> string \<Rightarrow> string list) \<Rightarrow> product list \<Rightarrow> string \<Rightarrow> string \<Rightarrow> string \<Rightarrow> bool" where
  "passed_by_loop catalog products dss_path b_part i =
     (case get_product_by_id products i of
        None \<Rightarrow> False
      | Some p \<Rightarrow>
          if truthy (last_forecast_version p) then True
          else (case get_existing_precip_data_range catalog dss_path b_part (dss_fpart p) of
                  Inr (Some data_start, Some data_end) \<Rightarrow> True
                | _ \<Rightarrow> False))"


section \<open>Example data\<close>

text \<open>
  A watershed with two observed products and one forecast product, and DSS files with
  different stored ranges for the first observed product.  The record paths carry the
  start of a grid in the fifth part and its end in the sixth; DSS writes an end at
  midnight as 2400 of the day before.
\<close>

definition ex_products :: "product list" where
  "ex_products =
     [\<lparr>p_id = ''p-mrms'', p_name = ''MRMS QPE'', dss_fpart = ''MRMS'', last_forecast_version = None\<rparr>,
      \<lparr>p_id = ''p-stage4'', p_name = ''Stage IV'', dss_fpart = ''STAGE4'', last_forecast_version = None\<rparr>,
      \<lparr>p_id = ''p-qpf'', p_name = ''WPC QPF'', dss_fpart = ''QPF'',
        last_forecast_version = Some ''2024-01-09T12:00:00Z''\<rparr>]"

definition ex_watersheds :: "watershed list" where
  "ex_watersheds = [\<lparr>w_id = ''ws-1'', w_name = ''KANAWHA'', office_symbol = ''LRH''\<rparr>]"

definition ex_catalog :: "string \<Rightarrow> string \<Rightarrow> string list" where
  "ex_catalog dss_path search_str =
     (if search_str = ''B=KANAWHA F=MRMS'' then
        (if dss_path = ''jan1_jan5.dss'' then
           [''/SHG/KANAWHA/PRECIP/01JAN2024:0000/01JAN2024:0100/MRMS/'',
            ''/SHG/KANAWHA/PRECIP/04JAN2024:2300/04JAN2024:2400/MRMS/'']
         else if dss_path = ''dec31_jan5.dss'' then
           [''/SHG/KANAWHA/PRECIP/31DEC2023:2300/31DEC2023:2400/MRMS/'',
            ''/SHG/KANAWHA/PRECIP/04JAN2024:2300/04JAN2024:2400/MRMS/'']
         else if dss_path = ''dec_feb.dss'' then
           [''/SHG/KANAWHA/PRECIP/01DEC2023:0000/01DEC2023:0100/MRMS/'',
            ''/SHG/KANAWHA/PRECIP/31JAN2024:2300/31JAN2024:2400/MRMS/'']
         else if dss_path = ''december.dss'' then
           [''/SHG/KANAWHA/PRECIP/01DEC2023:0000/01DEC2023:0100/MRMS/'',
            ''/SHG/KANAWHA/PRECIP/30DEC2023:2300/30DEC2023:2400/MRMS/'']
         else [])
      else [])"

definition ex_config :: "string \<Rightarrow> string list \<Rightarrow> config" where
  "ex_config dss_path ids = \<lparr>watershed_id = ''ws-1'', product_ids = ids, dss = dss_path\<rparr>"

text \<open>The request for 2024-01-01T00:00:00Z to 2024-01-10T00:00:00Z.\<close>

definition ex_go_config :: "string list \<Rightarrow> go_config" where
  "ex_go_config ids =
     \<lparr>StdOut = Some ''true'', Subcommand = Some ''grid'',
      Endpoint = Some ''deprecated/anonymous_downloads'', ID = Some ''ws-1'', Products = Some ids,
      After = Some (2024, 1, 1, 0, 0, 0), Before = Some (2024, 1, 10, 0, 0, 0), Timeout = None\<rparr>"

text \<open>
  A state of the class before any metadata is loaded and one with the metadata cached, a
  worker that answers both metadata requests, one that reports an error, and decoders
  for the worker's answers.
\<close>

definition ex_state :: cumulus where
  "ex_state = \<lparr>go_cfg = ex_go_config [''p-mrms''], products_meta = None, watersheds_meta = None,
                reports = []\<rparr>"

definition ex_cached :: cumulus where
  "ex_cached = \<lparr>go_cfg = ex_go_config [''p-mrms''], products_meta = Some ex_products,
                 watersheds_meta = Some ex_watersheds, reports = []\<rparr>"

definition ex_go_get :: "go_config \<Rightarrow> error + (string \<times> string)" where
  "ex_go_get cfg =
     (if Endpoint cfg = Some ''products'' then Inr (''[products]'', [])
      else Inr (''[watersheds]'', []))"

definition ex_go_get_down :: "go_config \<Rightarrow> error + (string \<times> string)" where
  "ex_go_get_down cfg = Inr ([], ''error::connection refused'')"

definition ex_loads_p :: "string \<Rightarrow> error + product list" where
  "ex_loads_p s = (if s = ''[products]'' then Inr ex_products else Inl ValueError)"

definition ex_loads_w :: "string \<Rightarrow> error + watershed list" where
  "ex_loads_w s = (if s = ''[watersheds]'' then Inr ex_watersheds else Inl ValueError)"

text \<open>
  Records of the extract stream as the provider sends them, and the objects they decode
  to.  \<open>ex_nested\<close> is a valid record with an object inside; \<open>ex_unknown\<close> has a code that
  is not in \<open>usgs_code\<close>.
\<close>

definition ex_stage :: string where
  \<open>ex_stage = ''{"code":"00065","site_number":"03197000","times":["0","15","30"],"values":[7,8,9]}''\<close>

definition ex_flow :: string where
  \<open>ex_flow = ''{"code":"00060","site_number":"03197000","times":["0","60"],"values":[120,130]}''\<close>

definition ex_unknown :: string where
  \<open>ex_unknown = ''{"code":"99999","site_number":"03197000","times":["0","15"],"values":[1,2]}''\<close>

definition ex_nested :: string where
  \<open>ex_nested = ''{"code":"00065","site_number":"03198000","times":["0","15"],"values":[1,2],"meta":{"agency":"USGS"}}''\<close>

definition ex_stage_site :: site where
  "ex_stage_site = \<lparr>message = None, code = ''00065'', site_number = ''03197000'',
                     times = [''0'', ''15'', ''30''], values = [7, 8, 9]\<rparr>"

definition ex_flow_site :: site where
  "ex_flow_site = \<lparr>message = None, code = ''00060'', site_number = ''03197000'',
                    times = [''0'', ''60''], values = [120, 130]\<rparr>"

definition ex_unknown_site :: site where
  "ex_unknown_site = \<lparr>message = None, code = ''99999'', site_number = ''03197000'',
                       times = [''0'', ''15''], values = [1, 2]\<rparr>"

definition ex_nested_site :: site where
  "ex_nested_site = \<lparr>message = None, code = ''00065'', site_number = ''03198000'',
                      times = [''0'', ''15''], values = [1, 2]\<rparr>"

text \<open>
  A library for the examples.  \<open>json.loads\<close> decodes the four complete records and
  raises \<open>ValueError\<close> on the other texts used here, which are cut-off or left-over pieces
  of a record and not JSON.  Times are minutes in decimal; the E-part is known for steps
  of 15 and 60 minutes and the call raises without a step; every series counts as
  regular.  The store is the list of the paths written, and it rejects a path it
  already holds.
\<close>

definition ex_json_loads :: "string \<Rightarrow> error + site" where
  "ex_json_loads s =
     (if s = ex_stage then Inr ex_stage_site
      else if s = ex_flow then Inr ex_flow_site
      else if s = ex_unknown then Inr ex_unknown_site
      else if s = ex_nested then Inr ex_nested_site
      else Inl ValueError)"

definition ex_epart :: "int option \<Rightarrow> error + string" where
  "ex_epart m =
     (case m of
        None \<Rightarrow> Inl TypeError
      | Some k \<Rightarrow> if k = 15 then Inr ''15Minute'' else if k = 60 then Inr ''1Hour''
                  else Inl (LibraryError ''interval''))"

definition ex_put :: "tsc \<Rightarrow> string list \<Rightarrow> error + string list" where
  "ex_put c store =
     (if fullName c \<in> set store then Inl (LibraryError ''record exists'')
      else Inr (store @ [fullName c]))"

definition ex_lib :: "string list hec" where
  "ex_lib = \<lparr>json_loads = ex_json_loads, HecTime_value = (\<lambda>t. int (py_int t)),
              getEPartFromIntervalMinutes = ex_epart, makeAscending = Inr,
              isIregular = (\<lambda>c. Inr False), snapToRegularTimeSeries = (\<lambda>c e. Inr c),
              dss_put = ex_put\<rparr>"


section \<open>Properties of the diagnostic-line translation\<close>

lemma progress_search_exact:
  assumes "ds \<noteq> []" "list_all is_digit ds"
  shows "progress_search (''Progress: '' @ ds) = Some ds"
proof -
  have "takeWhile is_digit ds = ds" using assms(2) by (simp add: list_all_iff)
  with assms(1) show ?thesis by (cases ds) simp_all
qed

lemma digits_no_initiated:
  "list_all is_digit ds \<Longrightarrow> \<not> py_in ''Status: INITIATED'' ds"
  by (induction ds) (auto simp: is_digit_def)

lemma progress_line_no_initiated:
  "list_all is_digit ds \<Longrightarrow> \<not> py_in ''Status: INITIATED'' (''Progress: '' @ ds)"
  using digits_no_initiated [of ds] by simp

lemma get_lines_order:
  "list_all2 (\<lambda>line p. \<exists>s. py_decode (py_strip line) = Inr s \<and> parse_go_output s = Inr p) lines ps
   \<Longrightarrow> get_lines lines evs err = Inr (evs @ concat ps, err @ concat lines)"
proof (induction lines ps arbitrary: evs err rule: list_all2_induct)
  case Nil
  then show ?case by simp
next
  case (Cons line p lines ps)
  then show ?case by auto
qed

text \<open>
  C3, as the claim states it, fails: the line \<open>Progress: 42\<close> is published as the
  progress value 42 and then once more as a log line, since the first \<open>if\<close> of
  \<open>__parse_go_output\<close> does not return.
\<close>

theorem progress_line_is_also_logged:
  "parse_go_output ''Progress: 42'' = Inr [Progress 42, Log ''Progress: 42'']
   \<and> get_realtime ''payload'' [''Progress: 42'' @ [CHR 0x0A]]
       = Inr ([Progress 42, Log ''Progress: 42''], ''payload'', ''Progress: 42'' @ [CHR 0x0A])"
  by (simp add: get_realtime_def parse_go_output_def py_decode_def py_strip_def py_space_def
      py_int_def digit_val_def is_digit_def)

text \<open>
  C3, amended.  A line \<open>Progress: <digits>\<close> is published as one progress event followed
  by one log event for the same line.  In general a line on which the progress marker is
  found gives its progress event first, and after it a log event unless the line contains
  \<open>Status: INITIATED\<close>; a line with \<open>Status: INITIATED\<close> and no progress marker gives no
  event; a line with neither marker gives exactly one log event.  The real-time loop
  publishes the events of the lines in the order the lines arrive.
\<close>

theorem go_output_translation:
  "(ds \<noteq> [] \<and> list_all is_digit ds \<longrightarrow>
      parse_go_output (''Progress: '' @ ds) = Inr [Progress (py_int ds), Log (''Progress: '' @ ds)])
   \<and> (py_in ''Progress:'' l1 \<and> progress_search l1 = Some ds1 \<longrightarrow>
      parse_go_output l1 =
        Inr (if py_in ''Status: INITIATED'' l1 then [Progress (py_int ds1)]
             else [Progress (py_int ds1), Log l1]))
   \<and> (py_in ''Status: INITIATED'' l2 \<and> \<not> py_in ''Progress:'' l2 \<longrightarrow> parse_go_output l2 = Inr [])
   \<and> (\<not> py_in ''Status: INITIATED'' l3 \<and> \<not> py_in ''Progress:'' l3 \<longrightarrow> parse_go_output l3 = Inr [Log l3])
   \<and> (list_all2 (\<lambda>line p. \<exists>s. py_decode (py_strip line) = Inr s \<and> parse_go_output s = Inr p) lines ps \<longrightarrow>
      get_realtime out lines = Inr (concat ps, out, concat lines))"
proof (intro conjI impI)
  assume a: "ds \<noteq> [] \<and> list_all is_digit ds"
  then have "progress_search (''Progress: '' @ ds) = Some ds"
    using progress_search_exact by blast
  moreover have "\<not> py_in ''Status: INITIATED'' (''Progress: '' @ ds)"
    using a progress_line_no_initiated by blast
  moreover have "py_in ''Progress:'' (''Progress: '' @ ds)" by simp
  ultimately show "parse_go_output (''Progress: '' @ ds) = Inr [Progress (py_int ds), Log (''Progress: '' @ ds)]"
    unfolding parse_go_output_def by simp
next
  assume "py_in ''Progress:'' l1 \<and> progress_search l1 = Some ds1"
  then show "parse_go_output l1 =
        Inr (if py_in ''Status: INITIATED'' l1 then [Progress (py_int ds1)]
             else [Progress (py_int ds1), Log l1])"
    unfolding parse_go_output_def by simp
next
  assume "py_in ''Status: INITIATED'' l2 \<and> \<not> py_in ''Progress:'' l2"
  then show "parse_go_output l2 = Inr []"
    unfolding parse_go_output_def by simp
next
  assume "\<not> py_in ''Status: INITIATED'' l3 \<and> \<not> py_in ''Progress:'' l3"
  then show "parse_go_output l3 = Inr [Log l3]"
    unfolding parse_go_output_def by simp
next
  assume "list_all2 (\<lambda>line p. \<exists>s. py_decode (py_strip line) = Inr s \<and> parse_go_output s = Inr p) lines ps"
  then have "get_lines lines [] [] = Inr ([] @ concat ps, [] @ concat lines)"
    by (rule get_lines_order)
  then show "get_realtime out lines = Inr (concat ps, out, concat lines)"
    unfolding get_realtime_def by simp
qed

theorem go_output_translation_witness:
  "(''42'' \<noteq> [] \<and> list_all is_digit ''42'')
   \<and> parse_go_output ''Progress: 42'' = Inr [Progress 42, Log ''Progress: 42'']
   \<and> (py_in ''Progress:'' ''Status: INITIATED; Progress: 0''
        \<and> progress_search ''Status: INITIATED; Progress: 0'' = Some ''0'')
   \<and> parse_go_output ''Status: INITIATED; Progress: 0'' = Inr [Progress 0]
   \<and> (py_in ''Status: INITIATED'' ''Status: INITIATED'' \<and> \<not> py_in ''Progress:'' ''Status: INITIATED'')
   \<and> parse_go_output ''Status: INITIATED'' = Inr []
   \<and> (\<not> py_in ''Status: INITIATED'' ''download started'' \<and> \<not> py_in ''Progress:'' ''download started'')
   \<and> parse_go_output ''download started'' = Inr [Log ''download started'']
   \<and> list_all2 (\<lambda>line p. \<exists>s. py_decode (py_strip line) = Inr s \<and> parse_go_output s = Inr p)
        [''download started'' @ [CHR 0x0A], ''Status: INITIATED'' @ [CHR 0x0A], ''Progress: 42'' @ [CHR 0x0A]]
        [[Log ''download started''], [], [Progress 42, Log ''Progress: 42'']]
   \<and> get_realtime ''out''
        [''download started'' @ [CHR 0x0A], ''Status: INITIATED'' @ [CHR 0x0A], ''Progress: 42'' @ [CHR 0x0A]]
       = Inr ([Log ''download started'', Progress 42, Log ''Progress: 42''], ''out'',
              ''download started'' @ [CHR 0x0A] @ ''Status: INITIATED'' @ [CHR 0x0A]
              @ ''Progress: 42'' @ [CHR 0x0A])"
proof -
  have h1: "''42'' \<noteq> [] \<and> list_all is_digit ''42''" by (simp add: is_digit_def)
  have h2: "py_in ''Progress:'' ''Status: INITIATED; Progress: 0''
            \<and> progress_search ''Status: INITIATED; Progress: 0'' = Some ''0''"
    by (simp add: is_digit_def)
  have h3: "py_in ''Status: INITIATED'' ''Status: INITIATED'' \<and> \<not> py_in ''Progress:'' ''Status: INITIATED''"
    by simp
  have h4: "\<not> py_in ''Status: INITIATED'' ''download started'' \<and> \<not> py_in ''Progress:'' ''download started''"
    by simp
  have h5: "list_all2 (\<lambda>line p. \<exists>s. py_decode (py_strip line) = Inr s \<and> parse_go_output s = Inr p)
        [''download started'' @ [CHR 0x0A], ''Status: INITIATED'' @ [CHR 0x0A], ''Progress: 42'' @ [CHR 0x0A]]
        [[Log ''download started''], [], [Progress 42, Log ''Progress: 42'']]"
    by (simp add: parse_go_output_def py_decode_def py_strip_def py_space_def py_int_def
        digit_val_def is_digit_def)
  show ?thesis
    using h1 h2 h3 h4 h5
      go_output_translation [of "''42''" "''Status: INITIATED; Progress: 0''" "''0''"
        "''Status: INITIATED''" "''download started''"
        "[''download started'' @ [CHR 0x0A], ''Status: INITIATED'' @ [CHR 0x0A], ''Progress: 42'' @ [CHR 0x0A]]"
        "[[Log ''download started''], [], [Progress 42, Log ''Progress: 42'']]" "''out''"]
    by (simp add: py_int_def digit_val_def)
qed


section \<open>Properties of the window resolution\<close>

lemma adjust_loop_skip_forecasts:
  "list_all (skipped_as_forecast products) ids \<Longrightarrow>
   adjust_loop catalog products d bp (ids @ rest) a bf cfg = adjust_loop catalog products d bp rest a bf cfg"
  by (induction ids) (auto simp: skipped_as_forecast_def split: option.splits)

lemma adjust_loop_observed_step:
  assumes "get_product_by_id products i = Some p" "\<not> truthy (last_forecast_version p)"
    and "get_existing_precip_data_range catalog d bp (dss_fpart p) = Inr (Some ds, Some de)"
  shows "adjust_loop catalog products d bp (i # rest) a bf cfg =
         adjust_loop catalog products d bp rest
           (if de > a \<and> a > ds then de else a) (if de > bf \<and> bf > ds then ds else bf)
           (cfg\<lparr>After := Some (if de > a \<and> a > ds then de else a),
                Before := Some (if de > bf \<and> bf > ds then ds else bf)\<rparr>)"
  using assms by (simp add: Let_def)

lemma adjust_loop_no_overlap:
  "After cfg = Some a \<Longrightarrow> Before cfg = Some bf \<Longrightarrow> a \<le> bf \<Longrightarrow>
   list_all (no_overlap catalog products d bp a bf) ids \<Longrightarrow>
   adjust_loop catalog products d bp ids a bf cfg = Inr cfg"
proof (induction ids)
  case Nil
  then show ?case by simp
next
  case (Cons i ids)
  from Cons.prems(4) obtain p where p: "get_product_by_id products i = Some p"
    by (auto simp: no_overlap_def split: option.splits)
  have rest: "adjust_loop catalog products d bp ids a bf cfg = Inr cfg"
    using Cons by simp
  show ?case
  proof (cases "truthy (last_forecast_version p)")
    case True
    with p rest show ?thesis by simp
  next
    case False
    from Cons.prems(4) p False obtain r where r: "get_existing_precip_data_range catalog d bp (dss_fpart p) = Inr r"
      by (auto simp: no_overlap_def split: sum.splits)
    show ?thesis
    proof (cases r)
      case (Pair s e)
      show ?thesis
      proof (cases s)
        case None
        with p \<open>\<not> truthy (last_forecast_version p)\<close> r Pair show ?thesis by simp
      next
        case s: (Some ds)
        show ?thesis
        proof (cases e)
          case None
          with p \<open>\<not> truthy (last_forecast_version p)\<close> r Pair s show ?thesis by simp
        next
          case e: (Some de)
          with Cons.prems(4) p False r Pair s have dis: "de \<le> a \<or> bf \<le> ds"
            by (simp add: no_overlap_def)
          have a': "(if de > a \<and> a > ds then de else a) = a"
            using dis Cons.prems(3) by auto
          have b': "(if de > bf \<and> bf > ds then ds else bf) = bf"
            using dis Cons.prems(3) by auto
          have same: "cfg\<lparr>After := Some a, Before := Some bf\<rparr> = cfg"
            using Cons.prems(1,2) by simp
          have "get_existing_precip_data_range catalog d bp (dss_fpart p) = Inr (Some ds, Some de)"
            using r Pair s e by simp
          from adjust_loop_observed_step [OF p False this, of ids a bf cfg]
          show ?thesis using a' b' same rest by simp
        qed
      qed
    qed
  qed
qed


text \<open>
  C8.  When the requested window is not inverted and every observed product that the
  loop consults has a stored range that does not overlap it (the range ends at or before
  \<open>After\<close>, or starts at or after \<open>Before\<close>), \<open>adjust_dates_by_cache\<close> leaves \<open>go_config\<close>,
  and with it the window, unchanged.
\<close>

theorem non_overlapping_range_keeps_window:
  "(After cfg = Some a \<and> Before cfg = Some bf \<and> a \<le> bf
      \<and> get_watershed_by_id watersheds (watershed_id cfgs) = Some w
      \<and> list_all (no_overlap catalog products (dss cfgs) (w_name w) a bf) (product_ids cfgs)
    \<longrightarrow> adjust_dates_by_cache catalog products watersheds cfgs cfg = Inr cfg)
   \<and> (After cfg1 = Some a1 \<and> Before cfg1 = Some bf1 \<and> a1 \<le> bf1
      \<and> get_product_by_id products1 i = Some p \<and> \<not> truthy (last_forecast_version p)
      \<and> get_existing_precip_data_range catalog1 d bp (dss_fpart p) = Inr (Some ds, Some de)
      \<and> (de \<le> a1 \<or> bf1 \<le> ds)
    \<longrightarrow> adjust_loop catalog1 products1 d bp (i # rest) a1 bf1 cfg1
        = adjust_loop catalog1 products1 d bp rest a1 bf1 cfg1)"
proof (intro conjI impI)
  assume "After cfg = Some a \<and> Before cfg = Some bf \<and> a \<le> bf
      \<and> get_watershed_by_id watersheds (watershed_id cfgs) = Some w
      \<and> list_all (no_overlap catalog products (dss cfgs) (w_name w) a bf) (product_ids cfgs)"
  then show "adjust_dates_by_cache catalog products watersheds cfgs cfg = Inr cfg"
    using adjust_loop_no_overlap [of cfg a bf catalog products "dss cfgs" "w_name w" "product_ids cfgs"]
    by (simp add: adjust_dates_by_cache_def)
next
  assume s: "After cfg1 = Some a1 \<and> Before cfg1 = Some bf1 \<and> a1 \<le> bf1
      \<and> get_product_by_id products1 i = Some p \<and> \<not> truthy (last_forecast_version p)
      \<and> get_existing_precip_data_range catalog1 d bp (dss_fpart p) = Inr (Some ds, Some de)
      \<and> (de \<le> a1 \<or> bf1 \<le> ds)"
  then have c1: "\<not> (de > a1 \<and> a1 > ds)" and c2: "\<not> (de > bf1 \<and> bf1 > ds)" by auto
  have same: "cfg1\<lparr>After := Some a1, Before := Some bf1\<rparr> = cfg1" using s by simp
  from s have p: "get_product_by_id products1 i = Some p"
    and nt: "\<not> truthy (last_forecast_version p)"
    and rg: "get_existing_precip_data_range catalog1 d bp (dss_fpart p) = Inr (Some ds, Some de)"
    by simp_all
  have "adjust_loop catalog1 products1 d bp (i # rest) a1 bf1 cfg1 =
         adjust_loop catalog1 products1 d bp rest
           (if de > a1 \<and> a1 > ds then de else a1) (if de > bf1 \<and> bf1 > ds then ds else bf1)
           (cfg1\<lparr>After := Some (if de > a1 \<and> a1 > ds then de else a1),
                 Before := Some (if de > bf1 \<and> bf1 > ds then ds else bf1)\<rparr>)"
    by (rule adjust_loop_observed_step [OF p nt rg])
  moreover have "(if de > a1 \<and> a1 > ds then de else a1) = a1" using c1 by (rule if_not_P)
  moreover have "(if de > bf1 \<and> bf1 > ds then ds else bf1) = bf1" using c2 by (rule if_not_P)
  ultimately
  show "adjust_loop catalog1 products1 d bp (i # rest) a1 bf1 cfg1
        = adjust_loop catalog1 products1 d bp rest a1 bf1 cfg1"
    using same by (simp only:)
qed

text \<open>
  The request for 1 to 10 January 2024 against a file that holds December 2023.
\<close>

theorem non_overlapping_range_keeps_window_witness:
  "(After (ex_go_config [''p-qpf'', ''p-mrms'']) = Some (2024, 1, 1, 0, 0, 0)
     \<and> Before (ex_go_config [''p-qpf'', ''p-mrms'']) = Some (2024, 1, 10, 0, 0, 0)
     \<and> ((2024, 1, 1, 0, 0, 0) :: datetime) \<le> (2024, 1, 10, 0, 0, 0)
     \<and> get_watershed_by_id ex_watersheds (watershed_id (ex_config ''december.dss'' [''p-qpf'', ''p-mrms'']))
         = Some \<lparr>w_id = ''ws-1'', w_name = ''KANAWHA'', office_symbol = ''LRH''\<rparr>
     \<and> list_all (no_overlap ex_catalog ex_products ''december.dss'' ''KANAWHA''
                   (2024, 1, 1, 0, 0, 0) (2024, 1, 10, 0, 0, 0)) [''p-qpf'', ''p-mrms''])
   \<and> adjust_dates_by_cache ex_catalog ex_products ex_watersheds
        (ex_config ''december.dss'' [''p-qpf'', ''p-mrms'']) (ex_go_config [''p-qpf'', ''p-mrms''])
       = Inr (ex_go_config [''p-qpf'', ''p-mrms''])
   \<and> (get_product_by_id ex_products ''p-mrms''
         = Some \<lparr>p_id = ''p-mrms'', p_name = ''MRMS QPE'', dss_fpart = ''MRMS'', last_forecast_version = None\<rparr>
     \<and> get_existing_precip_data_range ex_catalog ''december.dss'' ''KANAWHA'' ''MRMS''
         = Inr (Some (2023, 12, 1, 0, 0, 0), Some (2023, 12, 31, 0, 0, 0))
     \<and> ((2023, 12, 31, 0, 0, 0) :: datetime) \<le> (2024, 1, 1, 0, 0, 0))
   \<and> adjust_loop ex_catalog ex_products ''december.dss'' ''KANAWHA'' [''p-mrms'', ''p-stage4'']
        (2024, 1, 1, 0, 0, 0) (2024, 1, 10, 0, 0, 0) (ex_go_config [''p-mrms'', ''p-stage4''])
       = adjust_loop ex_catalog ex_products ''december.dss'' ''KANAWHA'' [''p-stage4'']
           (2024, 1, 1, 0, 0, 0) (2024, 1, 10, 0, 0, 0) (ex_go_config [''p-mrms'', ''p-stage4''])"
proof -
  let ?w = "\<lparr>w_id = ''ws-1'', w_name = ''KANAWHA'', office_symbol = ''LRH''\<rparr>"
  let ?p = "\<lparr>p_id = ''p-mrms'', p_name = ''MRMS QPE'', dss_fpart = ''MRMS'', last_forecast_version = None\<rparr>"
  have h1: "After (ex_go_config ids) = Some (2024, 1, 1, 0, 0, 0)" for ids
    by (simp add: ex_go_config_def)
  have h2: "Before (ex_go_config ids) = Some (2024, 1, 10, 0, 0, 0)" for ids
    by (simp add: ex_go_config_def)
  have h3: "((2024, 1, 1, 0, 0, 0) :: datetime) \<le> (2024, 1, 10, 0, 0, 0)"
    by simp
  have h4: "get_watershed_by_id ex_watersheds (watershed_id (ex_config ''december.dss'' [''p-qpf'', ''p-mrms'']))
       = Some ?w"
    by (simp add: ex_watersheds_def ex_config_def)
  have r: "get_existing_precip_data_range ex_catalog ''december.dss'' ''KANAWHA'' ''MRMS''
       = Inr (Some (2023, 12, 1, 0, 0, 0), Some (2023, 12, 31, 0, 0, 0))"
    by code_simp
  have h5: "list_all (no_overlap ex_catalog ex_products ''december.dss'' ''KANAWHA''
                 (2024, 1, 1, 0, 0, 0) (2024, 1, 10, 0, 0, 0)) [''p-qpf'', ''p-mrms'']"
    by (simp add: no_overlap_def ex_products_def r)
  have h6: "get_product_by_id ex_products ''p-mrms'' = Some ?p" by (simp add: ex_products_def)
  have h7: "((2023, 12, 31, 0, 0, 0) :: datetime) \<le> (2024, 1, 1, 0, 0, 0)" by simp
  have cfgs: "dss (ex_config ''december.dss'' ids) = ''december.dss''"
    "product_ids (ex_config ''december.dss'' ids) = ids" for ids
    by (simp_all add: ex_config_def)
  from non_overlapping_range_keeps_window [of "ex_go_config [''p-qpf'', ''p-mrms'']" "(2024, 1, 1, 0, 0, 0)"
      "(2024, 1, 10, 0, 0, 0)" ex_watersheds "ex_config ''december.dss'' [''p-qpf'', ''p-mrms'']" ?w
      ex_catalog ex_products "ex_go_config [''p-mrms'', ''p-stage4'']" "(2024, 1, 1, 0, 0, 0)"
      "(2024, 1, 10, 0, 0, 0)" ex_products "''p-mrms''" ?p ex_catalog "''december.dss''" "''KANAWHA''"
      "(2023, 12, 1, 0, 0, 0)" "(2023, 12, 31, 0, 0, 0)" "[''p-stage4'']"]
    h1 h2 h3 h4 h5 h6 h7 r cfgs
  show ?thesis by (simp del: adjust_loop.simps)
qed

text \<open>
  The shrink of \<open>After\<close> where the guard holds.  For the one observed product among the
  requested ones: when its stored range starts strictly before \<open>After\<close>, ends strictly
  after \<open>After\<close> and ends at or before \<open>Before\<close>, \<open>adjust_dates_by_cache\<close> moves \<open>After\<close>
  to the end of the stored range and changes nothing else.
\<close>

lemma stored_range_before_after_shrinks_after:
  assumes "After cfg = Some a" and "Before cfg = Some bf"
    and "get_watershed_by_id watersheds (watershed_id cfgs) = Some w"
    and "product_ids cfgs = pre @ [i] @ post"
    and "list_all (skipped_as_forecast products) pre"
    and "list_all (skipped_as_forecast products) post"
    and "get_product_by_id products i = Some p" and "\<not> truthy (last_forecast_version p)"
    and "get_existing_precip_data_range catalog (dss cfgs) (w_name w) (dss_fpart p) = Inr (Some ds, Some de)"
    and "ds < a" and "a < de" and "de \<le> bf"
  shows "adjust_dates_by_cache catalog products watersheds cfgs cfg = Inr (cfg\<lparr>After := Some de\<rparr>)"
proof -
  let ?loop = "adjust_loop catalog products (dss cfgs) (w_name w)"
  have keep: "cfg\<lparr>After := Some de, Before := Some bf\<rparr> = cfg\<lparr>After := Some de\<rparr>"
    using assms(2) by simp
  have "?loop (pre @ [i] @ post) a bf cfg = ?loop (i # post) a bf cfg"
    using adjust_loop_skip_forecasts [OF assms(5)] by simp
  also have "\<dots> = ?loop post de bf (cfg\<lparr>After := Some de\<rparr>)"
  proof -
    have c1: "de > a \<and> a > ds" using assms(10,11) by simp
    have c2: "\<not> (de > bf \<and> bf > ds)" using assms(12) by auto
    show ?thesis
      using adjust_loop_observed_step [OF assms(7,8,9), of post a bf cfg] c1 c2 keep
      by (simp del: adjust_loop.simps)
  qed
  also have "\<dots> = ?loop [] de bf (cfg\<lparr>After := Some de\<rparr>)"
    using adjust_loop_skip_forecasts [OF assms(6), of catalog "dss cfgs" "w_name w" "[]"] by simp
  finally show ?thesis
    using assms(1,2,3,4) by (simp add: adjust_dates_by_cache_def)
qed

lemma adjust_loop_inverted:
  "After cfg = Some a \<Longrightarrow> Before cfg = Some bf \<Longrightarrow> bf \<le> a \<Longrightarrow>
   list_all (consulted_ok catalog products d bp) ids \<Longrightarrow>
   \<exists>a' b'. b' \<le> a' \<and> adjust_loop catalog products d bp ids a bf cfg
                        = Inr (cfg\<lparr>After := Some a', Before := Some b'\<rparr>)"
proof (induction ids arbitrary: a bf cfg)
  case Nil
  have "cfg\<lparr>After := Some a, Before := Some bf\<rparr> = cfg" using Nil.prems(1,2) by simp
  with Nil.prems(3) show ?case by (intro exI [of _ a] exI [of _ bf]) simp
next
  case (Cons i ids)
  from Cons.prems(4) obtain p where p: "get_product_by_id products i = Some p"
    by (auto simp: consulted_ok_def split: option.splits)
  have tail: "list_all (consulted_ok catalog products d bp) ids" using Cons.prems(4) by simp
  have same: "cfg\<lparr>After := Some a, Before := Some bf\<rparr> = cfg" using Cons.prems(1,2) by simp
  show ?case
  proof (cases "truthy (last_forecast_version p)")
    case True
    with p Cons.IH [OF Cons.prems(1,2,3) tail] show ?thesis by simp
  next
    case False
    from Cons.prems(4) p False obtain s e where
      r: "get_existing_precip_data_range catalog d bp (dss_fpart p) = Inr (s, e)"
      by (auto simp: consulted_ok_def split: sum.splits)
    show ?thesis
    proof (cases s)
      case None
      with p False r same Cons.prems(3) show ?thesis
        by (intro exI [of _ a] exI [of _ bf]) simp
    next
      case s: (Some ds)
      show ?thesis
      proof (cases e)
        case None
        with p False r s same Cons.prems(3) show ?thesis
          by (intro exI [of _ a] exI [of _ bf]) simp
      next
        case e: (Some de)
        define a1 where "a1 = (if de > a \<and> a > ds then de else a)"
        define b1 where "b1 = (if de > bf \<and> bf > ds then ds else bf)"
        define cfg1 where "cfg1 = cfg\<lparr>After := Some a1, Before := Some b1\<rparr>"
        have inv: "b1 \<le> a1" using Cons.prems(3) unfolding a1_def b1_def by auto
        have c1: "After cfg1 = Some a1" "Before cfg1 = Some b1" by (simp_all add: cfg1_def)
        from Cons.IH [OF c1 inv tail] obtain a' b' where
          ab: "b' \<le> a'" "adjust_loop catalog products d bp ids a1 b1 cfg1
                        = Inr (cfg1\<lparr>After := Some a', Before := Some b'\<rparr>)" by blast
        have "get_existing_precip_data_range catalog d bp (dss_fpart p) = Inr (Some ds, Some de)"
          using r s e by simp
        from adjust_loop_observed_step [OF p False this, of ids a bf cfg]
        have "adjust_loop catalog products d bp (i # ids) a bf cfg
              = Inr (cfg\<lparr>After := Some a', Before := Some b'\<rparr>)"
          using ab(2) by (simp add: a1_def b1_def cfg1_def del: adjust_loop.simps)
        with ab(1) show ?thesis by blast
      qed
    qed
  qed
qed

lemma forecast_ids_filter:
  "list_all (\<lambda>i. get_product_by_id products i \<noteq> None) ids \<Longrightarrow>
   forecast_ids products ids = Inr (filter (kept_as_forecast products) ids)"
  by (induction ids) (auto simp: kept_as_forecast_def)

lemma passed_known: "passed_by_loop catalog products d bp i \<Longrightarrow> get_product_by_id products i \<noteq> None"
  by (auto simp: passed_by_loop_def split: option.splits)

lemma adjust_loop_prefix:
  "After cfg = Some a \<Longrightarrow> Before cfg = Some bf \<Longrightarrow>
   list_all (passed_by_loop catalog products d bp) pre \<Longrightarrow>
   \<exists>a1 b1. a \<le> a1 \<and> b1 \<le> bf
          \<and> adjust_loop catalog products d bp (pre @ rest) a bf cfg
              = adjust_loop catalog products d bp rest a1 b1 (cfg\<lparr>After := Some a1, Before := Some b1\<rparr>)"
proof (induction pre arbitrary: a bf cfg)
  case Nil
  have "cfg\<lparr>After := Some a, Before := Some bf\<rparr> = cfg" using Nil.prems(1,2) by simp
  then show ?case by (intro exI [of _ a] exI [of _ bf]) simp
next
  case (Cons i pre)
  from Cons.prems(3) obtain p where p: "get_product_by_id products i = Some p"
    by (auto simp: passed_by_loop_def split: option.splits)
  have tail: "list_all (passed_by_loop catalog products d bp) pre" using Cons.prems(3) by simp
  show ?case
  proof (cases "truthy (last_forecast_version p)")
    case True
    with p Cons.IH [OF Cons.prems(1,2) tail] show ?thesis by simp
  next
    case False
    from Cons.prems(3) p False obtain ds de where
      r: "get_existing_precip_data_range catalog d bp (dss_fpart p) = Inr (Some ds, Some de)"
      by (auto simp: passed_by_loop_def split: sum.splits option.splits)
    define a1 where "a1 = (if de > a \<and> a > ds then de else a)"
    define b1 where "b1 = (if de > bf \<and> bf > ds then ds else bf)"
    define cfg1 where "cfg1 = cfg\<lparr>After := Some a1, Before := Some b1\<rparr>"
    have mono: "a \<le> a1" "b1 \<le> bf" unfolding a1_def b1_def by auto
    have c1: "After cfg1 = Some a1" "Before cfg1 = Some b1" by (simp_all add: cfg1_def)
    from Cons.IH [OF c1 tail] obtain a2 b2 where
      ab: "a1 \<le> a2" "b2 \<le> b1"
        "adjust_loop catalog products d bp (pre @ rest) a1 b1 cfg1
         = adjust_loop catalog products d bp rest a2 b2 (cfg1\<lparr>After := Some a2, Before := Some b2\<rparr>)"
      by blast
    from adjust_loop_observed_step [OF p False r, of "pre @ rest" a bf cfg]
    have "adjust_loop catalog products d bp ((i # pre) @ rest) a bf cfg
          = adjust_loop catalog products d bp rest a2 b2 (cfg\<lparr>After := Some a2, Before := Some b2\<rparr>)"
      using ab(3) by (simp add: a1_def b1_def cfg1_def del: adjust_loop.simps)
    moreover have "a \<le> a2" "b2 \<le> bf" using mono ab(1,2) by auto
    ultimately show ?thesis by blast
  qed
qed

lemma consulted_known: "consulted_ok catalog products d bp i \<Longrightarrow> get_product_by_id products i \<noteq> None"
  by (auto simp: consulted_ok_def split: option.splits)

text \<open>
  C5, amended.  There is one window for all products.  When the loop reaches an observed
  product (every observed product before it has stored data) whose stored range strictly
  contains the requested window, the window written to \<open>go_config\<close> is inverted
  (\<open>Before \<le> After\<close>) whatever the other products hold, and
  \<open>execute\<close> then removes every product without a forecast version from \<open>Products\<close>,
  not only the covered one; it returns early when no product is left and otherwise goes
  on with the forecast products and the inverted window.
\<close>

theorem covered_product_drops_all_observed:
  assumes "After cfg = Some a" and "Before cfg = Some bf"
    and "Products cfg = Some (product_ids cfgs)"
    and "get_watershed_by_id watersheds (watershed_id cfgs) = Some w"
    and "product_ids cfgs = pre @ [i] @ post"
    and "list_all (passed_by_loop catalog products (dss cfgs) (w_name w)) pre"
    and "get_product_by_id products i = Some p" and "\<not> truthy (last_forecast_version p)"
    and "get_existing_precip_data_range catalog (dss cfgs) (w_name w) (dss_fpart p) = Inr (Some ds, Some de)"
    and "ds < a" and "a \<le> bf" and "bf < de"
    and "list_all (consulted_ok catalog products (dss cfgs) (w_name w)) post"
  shows "\<exists>a' b'. b' \<le> a'
           \<and> adjust_dates_by_cache catalog products watersheds cfgs cfg
               = Inr (cfg\<lparr>After := Some a', Before := Some b'\<rparr>)
           \<and> execute_use_cache catalog products watersheds cfgs cfg
               = Inr (if filter (kept_as_forecast products) (product_ids cfgs) = [] then None
                      else Some (cfg\<lparr>After := Some a', Before := Some b',
                                     Products := Some (filter (kept_as_forecast products) (product_ids cfgs))\<rparr>))"
proof -
  let ?loop = "adjust_loop catalog products (dss cfgs) (w_name w)"
  let ?fc = "filter (kept_as_forecast products) (product_ids cfgs)"
  from adjust_loop_prefix [OF assms(1,2,6), of "[i] @ post"] obtain a1 b1 where
    p1: "a \<le> a1" "b1 \<le> bf"
      "?loop (pre @ [i] @ post) a bf cfg = ?loop ([i] @ post) a1 b1 (cfg\<lparr>After := Some a1, Before := Some b1\<rparr>)"
    by blast
  define a2 where "a2 = (if de > a1 \<and> a1 > ds then de else a1)"
  define b2 where "b2 = (if de > b1 \<and> b1 > ds then ds else b1)"
  define cfg2 where "cfg2 = cfg\<lparr>After := Some a2, Before := Some b2\<rparr>"
  have lo: "ds < a1" using assms(10) p1(1) by auto
  have hi: "b1 < de" using assms(12) p1(2) by auto
  have sd: "ds < de" using assms(10,11,12) by auto
  have inv: "b2 \<le> a2"
  proof (cases "de > a1")
    case True
    with lo have a2: "a2 = de" by (simp add: a2_def)
    show ?thesis
    proof (cases "b1 > ds")
      case True
      with hi have "b2 = ds" by (simp add: b2_def)
      with a2 sd show ?thesis by simp
    next
      case False
      then have "b2 = b1" by (simp add: b2_def)
      with a2 hi show ?thesis by simp
    qed
  next
    case False
    then have a2: "a2 = a1" by (simp add: a2_def)
    have "b2 \<le> b1" by (simp add: b2_def) (use hi in auto)
    moreover have "b1 \<le> a1" using False hi by auto
    ultimately show ?thesis using a2 by auto
  qed
  have c2: "After cfg2 = Some a2" "Before cfg2 = Some b2" by (simp_all add: cfg2_def)
  from adjust_loop_inverted [OF c2 inv assms(13)] obtain a' b' where
    ab: "b' \<le> a'" "?loop post a2 b2 cfg2 = Inr (cfg2\<lparr>After := Some a', Before := Some b'\<rparr>)"
    by blast
  have "?loop ([i] @ post) a1 b1 (cfg\<lparr>After := Some a1, Before := Some b1\<rparr>) = ?loop post a2 b2 cfg2"
    using adjust_loop_observed_step [OF assms(7,8,9), of post a1 b1 "cfg\<lparr>After := Some a1, Before := Some b1\<rparr>"]
    by (simp add: a2_def b2_def cfg2_def del: adjust_loop.simps)
  with p1(3) have adj: "adjust_dates_by_cache catalog products watersheds cfgs cfg
                     = Inr (cfg\<lparr>After := Some a', Before := Some b'\<rparr>)"
    using assms(1,2,4,5) ab(2) by (simp add: adjust_dates_by_cache_def cfg2_def)
  have known: "list_all (\<lambda>i. get_product_by_id products i \<noteq> None) (product_ids cfgs)"
    using assms(5,6,7,13) passed_known [of catalog products "dss cfgs" "w_name w"]
      consulted_known [of catalog products "dss cfgs" "w_name w"]
    by (auto simp: list_all_iff)
  have rem: "remove_observed_products products (cfg\<lparr>After := Some a', Before := Some b'\<rparr>)
             = Inr (cfg\<lparr>After := Some a', Before := Some b', Products := Some ?fc\<rparr>)"
    using assms(3) forecast_ids_filter [OF known] by (simp add: remove_observed_products_def)
  have "execute_use_cache catalog products watersheds cfgs cfg
        = Inr (if ?fc = [] then None
               else Some (cfg\<lparr>After := Some a', Before := Some b', Products := Some ?fc\<rparr>))"
    using adj rem ab(1) by (simp add: execute_use_cache_def)
  with ab(1) adj show ?thesis by blast
qed



text \<open>
  C2.  The shrink of \<open>After\<close> is guarded by \<open>data_end > after > data_start\<close>, which is
  false when the stored range starts exactly at \<open>After\<close>.  For the one observed product
  among the requested ones: when its stored range starts at \<open>After\<close> and ends at or before
  \<open>Before\<close>, \<open>adjust_dates_by_cache\<close> leaves the window as requested, so the stored
  range is fetched again, where C2 moves \<open>After\<close> to the end of the stored range.
\<close>

theorem stored_range_starting_at_after_is_fetched_again:
  assumes "After cfg = Some a" and "Before cfg = Some bf"
    and "get_watershed_by_id watersheds (watershed_id cfgs) = Some w"
    and "product_ids cfgs = pre @ [i] @ post"
    and "list_all (skipped_as_forecast products) pre"
    and "list_all (skipped_as_forecast products) post"
    and "get_product_by_id products i = Some p" and "\<not> truthy (last_forecast_version p)"
    and "get_existing_precip_data_range catalog (dss cfgs) (w_name w) (dss_fpart p) = Inr (Some a, Some de)"
    and "de \<le> bf"
  shows "adjust_dates_by_cache catalog products watersheds cfgs cfg = Inr cfg"
proof -
  let ?loop = "adjust_loop catalog products (dss cfgs) (w_name w)"
  have same: "cfg\<lparr>After := Some a, Before := Some bf\<rparr> = cfg"
    using assms(1,2) by simp
  have c1: "\<not> (de > a \<and> a > a)" by simp
  have c2: "\<not> (de > bf \<and> bf > a)" using assms(10) by auto
  have "?loop (pre @ [i] @ post) a bf cfg = ?loop (i # post) a bf cfg"
    using adjust_loop_skip_forecasts [OF assms(5)] by simp
  also have "\<dots> = ?loop post
       (if de > a \<and> a > a then de else a) (if de > bf \<and> bf > a then a else bf)
       (cfg\<lparr>After := Some (if de > a \<and> a > a then de else a),
            Before := Some (if de > bf \<and> bf > a then a else bf)\<rparr>)"
    by (rule adjust_loop_observed_step [OF assms(7,8,9)])
  also have "\<dots> = ?loop post a bf cfg"
    using same by (simp only: if_not_P [OF c1] if_not_P [OF c2])
  also have "\<dots> = ?loop [] a bf cfg"
    using adjust_loop_skip_forecasts [OF assms(6), of catalog "dss cfgs" "w_name w" "[]"] by simp
  finally show ?thesis
    using assms(1,2,3,4) by (simp add: adjust_dates_by_cache_def)
qed

text \<open>
  The scenario of C2 itself: data stored from 2024-01-01T00:00 to 2024-01-05T00:00 and a
  request from 2024-01-01T00:00 to 2024-01-10T00:00.  \<open>After\<close> stays at 2024-01-01T00:00,
  where C2 gives 2024-01-05T00:00.
\<close>

theorem scenario_window_is_not_shrunk:
  "After (ex_go_config [''p-mrms'']) = Some (2024, 1, 1, 0, 0, 0)
   \<and> Before (ex_go_config [''p-mrms'']) = Some (2024, 1, 10, 0, 0, 0)
   \<and> get_watershed_by_id ex_watersheds (watershed_id (ex_config ''jan1_jan5.dss'' [''p-mrms'']))
       = Some \<lparr>w_id = ''ws-1'', w_name = ''KANAWHA'', office_symbol = ''LRH''\<rparr>
   \<and> product_ids (ex_config ''jan1_jan5.dss'' [''p-mrms'']) = [] @ [''p-mrms''] @ []
   \<and> get_product_by_id ex_products ''p-mrms''
       = Some \<lparr>p_id = ''p-mrms'', p_name = ''MRMS QPE'', dss_fpart = ''MRMS'', last_forecast_version = None\<rparr>
   \<and> get_existing_precip_data_range ex_catalog ''jan1_jan5.dss'' ''KANAWHA'' ''MRMS''
       = Inr (Some (2024, 1, 1, 0, 0, 0), Some (2024, 1, 5, 0, 0, 0))
   \<and> ((2024, 1, 5, 0, 0, 0) :: datetime) \<le> (2024, 1, 10, 0, 0, 0)
   \<and> adjust_dates_by_cache ex_catalog ex_products ex_watersheds
        (ex_config ''jan1_jan5.dss'' [''p-mrms'']) (ex_go_config [''p-mrms''])
       = Inr (ex_go_config [''p-mrms''])
   \<and> After (ex_go_config [''p-mrms'']) \<noteq> Some (2024, 1, 5, 0, 0, 0)"
proof -
  let ?cfg = "ex_go_config [''p-mrms'']"
  let ?cfgs = "ex_config ''jan1_jan5.dss'' [''p-mrms'']"
  let ?w = "\<lparr>w_id = ''ws-1'', w_name = ''KANAWHA'', office_symbol = ''LRH''\<rparr>"
  let ?p = "\<lparr>p_id = ''p-mrms'', p_name = ''MRMS QPE'', dss_fpart = ''MRMS'', last_forecast_version = None\<rparr>"
  have h1: "After ?cfg = Some (2024, 1, 1, 0, 0, 0)" by (simp add: ex_go_config_def)
  have h2: "Before ?cfg = Some (2024, 1, 10, 0, 0, 0)" by (simp add: ex_go_config_def)
  have h3: "get_watershed_by_id ex_watersheds (watershed_id ?cfgs) = Some ?w"
    by (simp add: ex_watersheds_def ex_config_def)
  have h4: "product_ids ?cfgs = [] @ [''p-mrms''] @ []" by (simp add: ex_config_def)
  have h5: "list_all (skipped_as_forecast ex_products) []" by simp
  have h7: "get_product_by_id ex_products ''p-mrms'' = Some ?p" by (simp add: ex_products_def)
  have h8: "\<not> truthy (last_forecast_version ?p)" by simp
  have r: "get_existing_precip_data_range ex_catalog ''jan1_jan5.dss'' ''KANAWHA'' ''MRMS''
       = Inr (Some (2024, 1, 1, 0, 0, 0), Some (2024, 1, 5, 0, 0, 0))"
    by code_simp
  have h9: "get_existing_precip_data_range ex_catalog (dss ?cfgs) (w_name ?w) (dss_fpart ?p)
       = Inr (Some (2024, 1, 1, 0, 0, 0), Some (2024, 1, 5, 0, 0, 0))"
    using r by (simp add: ex_config_def)
  have h10: "((2024, 1, 5, 0, 0, 0) :: datetime) \<le> (2024, 1, 10, 0, 0, 0)" by simp
  have ne: "After ?cfg \<noteq> Some (2024, 1, 5, 0, 0, 0)" by (simp add: ex_go_config_def)
  show ?thesis
    using h1 h2 h3 h4 h7 r h10 ne
      stored_range_starting_at_after_is_fetched_again [OF h1 h2 h3 h4 h5 h5 h7 h8 h9 h10]
    by simp
qed

text \<open>
  The same request against a file whose data starts one hour earlier.
\<close>

lemma stored_range_before_after_shrinks_after_example:
  "After (ex_go_config [''p-qpf'', ''p-mrms'']) = Some (2024, 1, 1, 0, 0, 0)
   \<and> Before (ex_go_config [''p-qpf'', ''p-mrms'']) = Some (2024, 1, 10, 0, 0, 0)
   \<and> get_watershed_by_id ex_watersheds (watershed_id (ex_config ''dec31_jan5.dss'' [''p-qpf'', ''p-mrms'']))
       = Some \<lparr>w_id = ''ws-1'', w_name = ''KANAWHA'', office_symbol = ''LRH''\<rparr>
   \<and> product_ids (ex_config ''dec31_jan5.dss'' [''p-qpf'', ''p-mrms'']) = [''p-qpf''] @ [''p-mrms''] @ []
   \<and> list_all (skipped_as_forecast ex_products) [''p-qpf'']
   \<and> get_product_by_id ex_products ''p-mrms''
       = Some \<lparr>p_id = ''p-mrms'', p_name = ''MRMS QPE'', dss_fpart = ''MRMS'', last_forecast_version = None\<rparr>
   \<and> get_existing_precip_data_range ex_catalog ''dec31_jan5.dss'' ''KANAWHA'' ''MRMS''
       = Inr (Some (2023, 12, 31, 23, 0, 0), Some (2024, 1, 5, 0, 0, 0))
   \<and> ((2023, 12, 31, 23, 0, 0) :: datetime) < (2024, 1, 1, 0, 0, 0)
   \<and> ((2024, 1, 1, 0, 0, 0) :: datetime) < (2024, 1, 5, 0, 0, 0)
   \<and> ((2024, 1, 5, 0, 0, 0) :: datetime) \<le> (2024, 1, 10, 0, 0, 0)
   \<and> adjust_dates_by_cache ex_catalog ex_products ex_watersheds
        (ex_config ''dec31_jan5.dss'' [''p-qpf'', ''p-mrms'']) (ex_go_config [''p-qpf'', ''p-mrms''])
       = Inr ((ex_go_config [''p-qpf'', ''p-mrms''])\<lparr>After := Some (2024, 1, 5, 0, 0, 0)\<rparr>)"
proof -
  let ?cfg = "ex_go_config [''p-qpf'', ''p-mrms'']"
  let ?cfgs = "ex_config ''dec31_jan5.dss'' [''p-qpf'', ''p-mrms'']"
  let ?w = "\<lparr>w_id = ''ws-1'', w_name = ''KANAWHA'', office_symbol = ''LRH''\<rparr>"
  let ?p = "\<lparr>p_id = ''p-mrms'', p_name = ''MRMS QPE'', dss_fpart = ''MRMS'', last_forecast_version = None\<rparr>"
  have h1: "After ?cfg = Some (2024, 1, 1, 0, 0, 0)" by (simp add: ex_go_config_def)
  have h2: "Before ?cfg = Some (2024, 1, 10, 0, 0, 0)" by (simp add: ex_go_config_def)
  have h3: "get_watershed_by_id ex_watersheds (watershed_id ?cfgs) = Some ?w"
    by (simp add: ex_watersheds_def ex_config_def)
  have h4: "product_ids ?cfgs = [''p-qpf''] @ [''p-mrms''] @ []" by (simp add: ex_config_def)
  have h5: "list_all (skipped_as_forecast ex_products) [''p-qpf'']"
    by (simp add: skipped_as_forecast_def ex_products_def)
  have h6: "list_all (skipped_as_forecast ex_products) []" by simp
  have h7: "get_product_by_id ex_products ''p-mrms'' = Some ?p" by (simp add: ex_products_def)
  have h8: "\<not> truthy (last_forecast_version ?p)" by simp
  have r: "get_existing_precip_data_range ex_catalog ''dec31_jan5.dss'' ''KANAWHA'' ''MRMS''
       = Inr (Some (2023, 12, 31, 23, 0, 0), Some (2024, 1, 5, 0, 0, 0))"
    by code_simp
  have h9: "get_existing_precip_data_range ex_catalog (dss ?cfgs) (w_name ?w) (dss_fpart ?p)
       = Inr (Some (2023, 12, 31, 23, 0, 0), Some (2024, 1, 5, 0, 0, 0))"
    using r by (simp add: ex_config_def)
  have h10: "((2023, 12, 31, 23, 0, 0) :: datetime) < (2024, 1, 1, 0, 0, 0)" by simp
  have h11: "((2024, 1, 1, 0, 0, 0) :: datetime) < (2024, 1, 5, 0, 0, 0)" by simp
  have h12: "((2024, 1, 5, 0, 0, 0) :: datetime) \<le> (2024, 1, 10, 0, 0, 0)" by simp
  show ?thesis
    using h1 h2 h3 h4 h5 h7 r h10 h11 h12
      stored_range_before_after_shrinks_after [OF h1 h2 h3 h4 h5 h6 h7 h8 h9 h10 h11 h12]
    by simp
qed

text \<open>
  C5, as the claim states it, fails: the first observed product is covered from December
  to February, the second observed product has no stored data at all, and still only the
  forecast product is left in \<open>Products\<close>, with the bounds of the covered range as its
  window.
\<close>

theorem covered_product_takes_the_others_along:
  "get_existing_precip_data_range ex_catalog ''dec_feb.dss'' ''KANAWHA'' ''MRMS''
     = Inr (Some (2023, 12, 1, 0, 0, 0), Some (2024, 2, 1, 0, 0, 0))
   \<and> get_existing_precip_data_range ex_catalog ''dec_feb.dss'' ''KANAWHA'' ''STAGE4'' = Inr (None, None)
   \<and> execute_use_cache ex_catalog ex_products ex_watersheds
        (ex_config ''dec_feb.dss'' [''p-mrms'', ''p-stage4'', ''p-qpf''])
        (ex_go_config [''p-mrms'', ''p-stage4'', ''p-qpf''])
       = Inr (Some ((ex_go_config [''p-mrms'', ''p-stage4'', ''p-qpf''])
                      \<lparr>After := Some (2024, 2, 1, 0, 0, 0), Before := Some (2023, 12, 1, 0, 0, 0),
                       Products := Some [''p-qpf'']\<rparr>))"
proof -
  have r1: "get_existing_precip_data_range ex_catalog ''dec_feb.dss'' ''KANAWHA'' ''MRMS''
     = Inr (Some (2023, 12, 1, 0, 0, 0), Some (2024, 2, 1, 0, 0, 0))"
    by code_simp
  have r2: "get_existing_precip_data_range ex_catalog ''dec_feb.dss'' ''KANAWHA'' ''STAGE4'' = Inr (None, None)"
    by code_simp
  have "execute_use_cache ex_catalog ex_products ex_watersheds
        (ex_config ''dec_feb.dss'' [''p-mrms'', ''p-stage4'', ''p-qpf''])
        (ex_go_config [''p-mrms'', ''p-stage4'', ''p-qpf''])
       = Inr (Some ((ex_go_config [''p-mrms'', ''p-stage4'', ''p-qpf''])
                      \<lparr>After := Some (2024, 2, 1, 0, 0, 0), Before := Some (2023, 12, 1, 0, 0, 0),
                       Products := Some [''p-qpf'']\<rparr>))"
    by code_simp
  with r1 r2 show ?thesis by simp
qed



text \<open>
  The request for 1 to 10 January 2024 against a file that covers December to February
  for the first observed product.
\<close>

theorem covered_product_drops_all_observed_witness:
  "After (ex_go_config [''p-mrms'', ''p-stage4'', ''p-qpf'']) = Some (2024, 1, 1, 0, 0, 0)
   \<and> Before (ex_go_config [''p-mrms'', ''p-stage4'', ''p-qpf'']) = Some (2024, 1, 10, 0, 0, 0)
   \<and> Products (ex_go_config [''p-mrms'', ''p-stage4'', ''p-qpf''])
       = Some (product_ids (ex_config ''dec_feb.dss'' [''p-mrms'', ''p-stage4'', ''p-qpf'']))
   \<and> get_watershed_by_id ex_watersheds
        (watershed_id (ex_config ''dec_feb.dss'' [''p-mrms'', ''p-stage4'', ''p-qpf'']))
       = Some \<lparr>w_id = ''ws-1'', w_name = ''KANAWHA'', office_symbol = ''LRH''\<rparr>
   \<and> product_ids (ex_config ''dec_feb.dss'' [''p-mrms'', ''p-stage4'', ''p-qpf''])
       = [] @ [''p-mrms''] @ [''p-stage4'', ''p-qpf'']
   \<and> get_product_by_id ex_products ''p-mrms''
       = Some \<lparr>p_id = ''p-mrms'', p_name = ''MRMS QPE'', dss_fpart = ''MRMS'', last_forecast_version = None\<rparr>
   \<and> get_existing_precip_data_range ex_catalog ''dec_feb.dss'' ''KANAWHA'' ''MRMS''
       = Inr (Some (2023, 12, 1, 0, 0, 0), Some (2024, 2, 1, 0, 0, 0))
   \<and> ((2023, 12, 1, 0, 0, 0) :: datetime) < (2024, 1, 1, 0, 0, 0)
   \<and> ((2024, 1, 1, 0, 0, 0) :: datetime) \<le> (2024, 1, 10, 0, 0, 0)
   \<and> ((2024, 1, 10, 0, 0, 0) :: datetime) < (2024, 2, 1, 0, 0, 0)
   \<and> list_all (consulted_ok ex_catalog ex_products ''dec_feb.dss'' ''KANAWHA'') [''p-stage4'', ''p-qpf'']
   \<and> filter (kept_as_forecast ex_products) [''p-mrms'', ''p-stage4'', ''p-qpf''] = [''p-qpf'']
   \<and> (\<exists>a' b'. b' \<le> a'
         \<and> adjust_dates_by_cache ex_catalog ex_products ex_watersheds
              (ex_config ''dec_feb.dss'' [''p-mrms'', ''p-stage4'', ''p-qpf''])
              (ex_go_config [''p-mrms'', ''p-stage4'', ''p-qpf''])
             = Inr ((ex_go_config [''p-mrms'', ''p-stage4'', ''p-qpf''])\<lparr>After := Some a', Before := Some b'\<rparr>)
         \<and> execute_use_cache ex_catalog ex_products ex_watersheds
              (ex_config ''dec_feb.dss'' [''p-mrms'', ''p-stage4'', ''p-qpf''])
              (ex_go_config [''p-mrms'', ''p-stage4'', ''p-qpf''])
             = Inr (Some ((ex_go_config [''p-mrms'', ''p-stage4'', ''p-qpf''])
                            \<lparr>After := Some a', Before := Some b', Products := Some [''p-qpf'']\<rparr>)))"
proof -
  let ?ids = "[''p-mrms'', ''p-stage4'', ''p-qpf'']"
  let ?cfg = "ex_go_config ?ids"
  let ?cfgs = "ex_config ''dec_feb.dss'' ?ids"
  let ?w = "\<lparr>w_id = ''ws-1'', w_name = ''KANAWHA'', office_symbol = ''LRH''\<rparr>"
  let ?p = "\<lparr>p_id = ''p-mrms'', p_name = ''MRMS QPE'', dss_fpart = ''MRMS'', last_forecast_version = None\<rparr>"
  have h1: "After ?cfg = Some (2024, 1, 1, 0, 0, 0)" by (simp add: ex_go_config_def)
  have h2: "Before ?cfg = Some (2024, 1, 10, 0, 0, 0)" by (simp add: ex_go_config_def)
  have h3: "Products ?cfg = Some (product_ids ?cfgs)" by (simp add: ex_go_config_def ex_config_def)
  have h4: "get_watershed_by_id ex_watersheds (watershed_id ?cfgs) = Some ?w"
    by (simp add: ex_watersheds_def ex_config_def)
  have h5: "product_ids ?cfgs = [] @ [''p-mrms''] @ [''p-stage4'', ''p-qpf'']" by (simp add: ex_config_def)
  have h6: "list_all (passed_by_loop ex_catalog ex_products (dss ?cfgs) (w_name ?w)) []" by simp
  have h7: "get_product_by_id ex_products ''p-mrms'' = Some ?p" by (simp add: ex_products_def)
  have h8: "\<not> truthy (last_forecast_version ?p)" by simp
  have r: "get_existing_precip_data_range ex_catalog ''dec_feb.dss'' ''KANAWHA'' ''MRMS''
       = Inr (Some (2023, 12, 1, 0, 0, 0), Some (2024, 2, 1, 0, 0, 0))"
    by code_simp
  have h9: "get_existing_precip_data_range ex_catalog (dss ?cfgs) (w_name ?w) (dss_fpart ?p)
       = Inr (Some (2023, 12, 1, 0, 0, 0), Some (2024, 2, 1, 0, 0, 0))"
    using r by (simp add: ex_config_def)
  have h10: "((2023, 12, 1, 0, 0, 0) :: datetime) < (2024, 1, 1, 0, 0, 0)" by simp
  have h11: "((2024, 1, 1, 0, 0, 0) :: datetime) \<le> (2024, 1, 10, 0, 0, 0)" by simp
  have h12: "((2024, 1, 10, 0, 0, 0) :: datetime) < (2024, 2, 1, 0, 0, 0)" by simp
  have c: "list_all (consulted_ok ex_catalog ex_products ''dec_feb.dss'' ''KANAWHA'') [''p-stage4'', ''p-qpf'']"
    by code_simp
  have h13: "list_all (consulted_ok ex_catalog ex_products (dss ?cfgs) (w_name ?w)) [''p-stage4'', ''p-qpf'']"
    using c by (simp add: ex_config_def)
  have f: "filter (kept_as_forecast ex_products) ?ids = [''p-qpf'']"
    by (simp add: kept_as_forecast_def ex_products_def)
  have f': "filter (kept_as_forecast ex_products) (product_ids ?cfgs) = [''p-qpf'']"
    using f by (simp add: ex_config_def)
  show ?thesis
    using h1 h2 h3 h4 h5 h7 r h10 h11 h12 c f
      covered_product_drops_all_observed [OF h1 h2 h3 h4 h5 h6 h7 h8 h9 h10 h11 h12 h13]
    unfolding f' by simp
qed


text \<open>
  C7.  The code subtracts \<open>before\<close> from \<open>after\<close>.  Whenever \<open>after\<close> is the earlier
  instant, the number of days is negative and the timeout is the floor of 300 seconds,
  whatever the length of the window.
\<close>

theorem timeout_is_the_floor:
  "total_seconds after < total_seconds before \<Longrightarrow>
   timedelta_days after before < 0 \<and> window_timeout after before = 300"
proof -
  assume "total_seconds after < total_seconds before"
  then have "total_seconds after - total_seconds before < 0" by simp
  then have "timedelta_days after before < 0"
    unfolding timedelta_days_def by (simp add: div_neg_pos_less0)
  then show ?thesis by (simp add: window_timeout_def Let_def)
qed

text \<open>
  A window of thirty days: the number of days is \<open>-30\<close> and the timeout 300, where 20
  seconds for each of the 30 days would be 600; \<open>execute\<close> stores that 300 in \<open>go_config\<close>.
\<close>

theorem thirty_day_window_timeout:
  "total_seconds (2024, 1, 1, 0, 0, 0) < total_seconds (2024, 1, 31, 0, 0, 0)
   \<and> timedelta_days (2024, 1, 1, 0, 0, 0) (2024, 1, 31, 0, 0, 0) = - 30
   \<and> timedelta_days (2024, 1, 31, 0, 0, 0) (2024, 1, 1, 0, 0, 0) = 30
   \<and> window_timeout (2024, 1, 1, 0, 0, 0) (2024, 1, 31, 0, 0, 0) = 300
   \<and> execute_use_cache ex_catalog ex_products ex_watersheds (ex_config ''none.dss'' [''p-mrms''])
        ((ex_go_config [''p-mrms''])\<lparr>Before := Some (2024, 1, 31, 0, 0, 0)\<rparr>)
       = Inr (Some ((ex_go_config [''p-mrms''])\<lparr>Before := Some (2024, 1, 31, 0, 0, 0),
                                                 Timeout := Some 300\<rparr>))"
proof -
  have h: "total_seconds (2024, 1, 1, 0, 0, 0) < total_seconds (2024, 1, 31, 0, 0, 0)" by code_simp
  have d1: "timedelta_days (2024, 1, 1, 0, 0, 0) (2024, 1, 31, 0, 0, 0) = - 30" by code_simp
  have d2: "timedelta_days (2024, 1, 31, 0, 0, 0) (2024, 1, 1, 0, 0, 0) = 30" by code_simp
  have e: "execute_use_cache ex_catalog ex_products ex_watersheds (ex_config ''none.dss'' [''p-mrms''])
        ((ex_go_config [''p-mrms''])\<lparr>Before := Some (2024, 1, 31, 0, 0, 0)\<rparr>)
       = Inr (Some ((ex_go_config [''p-mrms''])\<lparr>Before := Some (2024, 1, 31, 0, 0, 0),
                                                 Timeout := Some 300\<rparr>))"
    by code_simp
  from timeout_is_the_floor [OF h] h d1 d2 e show ?thesis by simp
qed


section \<open>Properties of the outcome of a run\<close>

lemma split_acc_no_sep:
  "\<not> py_in sep s \<Longrightarrow> split_acc sep acc s = [acc @ s]"
  by (induction s arbitrary: acc) auto

lemma split_acc_nonempty: "split_acc sep acc s \<noteq> []"
  by (induction s arbitrary: acc) auto

lemma split_acc_colons:
  "split_acc ''::'' acc (CHR '':'' # CHR '':'' # s) = acc # split_acc ''::'' [] s"
  by simp

lemma split_acc_other:
  assumes "\<not> prefix sep (c # s)"
  shows "split_acc sep acc (c # s) = split_acc sep (acc @ [c]) s"
  using assms by (simp only: split_acc.simps if_False)

lemma split_acc_last_piece:
  "(pre = [] \<or> last pre \<noteq> CHR '':'') \<Longrightarrow> \<not> py_in ''::'' msg \<Longrightarrow>
   last (split_acc ''::'' acc (pre @ ''::'' @ msg)) = msg"
proof (induction pre arbitrary: acc rule: length_induct)
  case (1 pre)
  show ?case
  proof (cases pre)
    case Nil
    have "split_acc ''::'' acc (''::'' @ msg) = acc # split_acc ''::'' [] msg"
      using split_acc_colons [of acc msg] by simp
    then show ?thesis
      using Nil split_acc_no_sep [OF "1.prems"(2), of "[]"] by simp
  next
    case (Cons c cs)
    show ?thesis
    proof (cases "prefix ''::'' (c # cs @ ''::'' @ msg)")
      case True
      have "cs \<noteq> []" using "1.prems"(1) Cons True by auto
      then obtain c2 cs' where cs: "cs = c2 # cs'" by (cases cs) auto
      with True have c: "c = CHR '':''" "c2 = CHR '':''" by auto
      have ok: "cs' = [] \<or> last cs' \<noteq> CHR '':''" using "1.prems"(1) Cons cs by (cases cs') auto
      have "length cs' < length pre" using Cons cs by simp
      with "1.IH" ok "1.prems"(2) have "last (split_acc ''::'' [] (cs' @ ''::'' @ msg)) = msg" by blast
      moreover have "split_acc ''::'' acc (pre @ ''::'' @ msg) = acc # split_acc ''::'' [] (cs' @ ''::'' @ msg)"
        unfolding Cons cs c using split_acc_colons [of acc "cs' @ ''::'' @ msg"] by simp
      ultimately show ?thesis using split_acc_nonempty [of "''::''" "[]" "cs' @ ''::'' @ msg"] by simp
    next
      case False
      have ok: "cs = [] \<or> last cs \<noteq> CHR '':''" using "1.prems"(1) Cons by (cases cs) auto
      have "length cs < length pre" using Cons by simp
      with "1.IH" ok "1.prems"(2) have "last (split_acc ''::'' (acc @ [c]) (cs @ ''::'' @ msg)) = msg" by blast
      moreover have "split_acc ''::'' acc (pre @ ''::'' @ msg) = split_acc ''::'' (acc @ [c]) (cs @ ''::'' @ msg)"
        unfolding Cons using split_acc_other [OF False, of acc] by simp
      ultimately show ?thesis by simp
    qed
  qed
qed

lemma split_acc_first_piece:
  "\<not> py_in ''::'' a \<Longrightarrow> (a = [] \<or> last a \<noteq> CHR '':'') \<Longrightarrow>
   split_acc ''::'' acc (a @ ''::'' @ rest) = (acc @ a) # split_acc ''::'' [] rest"
proof (induction a arbitrary: acc)
  case Nil
  then show ?case by simp
next
  case (Cons c cs)
  have np: "\<not> prefix ''::'' ((c # cs) @ ''::'' @ rest)"
    using Cons.prems by (cases cs) auto
  have "\<not> py_in ''::'' cs" using Cons.prems(1) by simp
  moreover have "cs = [] \<or> last cs \<noteq> CHR '':''" using Cons.prems(2) by auto
  ultimately have "split_acc ''::'' (acc @ [c]) (cs @ ''::'' @ rest) = ((acc @ [c]) @ cs) # split_acc ''::'' [] rest"
    using Cons.IH by blast
  with np show ?case by simp
qed

text \<open>
  C6.  When the diagnostic text contains \<open>error\<close>, the run fails with the last piece of
  \<open>stderr.split("::")\<close> as its message, whatever the result channel holds; that piece is
  the text after the last separator (stated for a text \<open>pre::msg\<close> in which \<open>msg\<close> has no
  separator and \<open>pre\<close> does not end in a colon, so that the separators are unambiguous).
  Otherwise, when the result channel holds a pair \<open>x::path\<close>, the run completes with the
  second element as the path.
\<close>

theorem run_outcome:
  "(py_in ''error'' stderr1 \<longrightarrow>
      execute_result stdout1 stderr1 = Inr (Failed (last (py_split ''::'' stderr1))))
   \<and> (py_in ''error'' (pre @ ''::'' @ msg) \<and> (pre = [] \<or> last pre \<noteq> CHR '':'') \<and> \<not> py_in ''::'' msg \<longrightarrow>
      execute_result stdout2 (pre @ ''::'' @ msg) = Inr (Failed msg))
   \<and> (\<not> py_in ''error'' stderr3 \<and> py_split ''::'' stdout3 = [x, file_path] \<longrightarrow>
      execute_result stdout3 stderr3 = Inr (Completed file_path))
   \<and> (\<not> py_in ''error'' stderr4 \<and> \<not> py_in ''::'' a \<and> (a = [] \<or> last a \<noteq> CHR '':'') \<and> \<not> py_in ''::'' path \<longrightarrow>
      execute_result (a @ ''::'' @ path) stderr4 = Inr (Completed path))"
proof (intro conjI impI)
  assume "py_in ''error'' stderr1"
  then show "execute_result stdout1 stderr1 = Inr (Failed (last (py_split ''::'' stderr1)))"
    by (simp add: execute_result_def)
next
  assume a: "py_in ''error'' (pre @ ''::'' @ msg) \<and> (pre = [] \<or> last pre \<noteq> CHR '':'') \<and> \<not> py_in ''::'' msg"
  then have "last (py_split ''::'' (pre @ ''::'' @ msg)) = msg"
    unfolding py_split_def using split_acc_last_piece by blast
  with a show "execute_result stdout2 (pre @ ''::'' @ msg) = Inr (Failed msg)"
    by (simp add: execute_result_def)
next
  assume "\<not> py_in ''error'' stderr3 \<and> py_split ''::'' stdout3 = [x, file_path]"
  then show "execute_result stdout3 stderr3 = Inr (Completed file_path)"
    by (simp add: execute_result_def)
next
  assume a: "\<not> py_in ''error'' stderr4 \<and> \<not> py_in ''::'' a \<and> (a = [] \<or> last a \<noteq> CHR '':'') \<and> \<not> py_in ''::'' path"
  then have "split_acc ''::'' [] (a @ ''::'' @ path) = ([] @ a) # split_acc ''::'' [] path"
    using split_acc_first_piece by blast
  moreover have "split_acc ''::'' [] path = [[] @ path]"
    using a split_acc_no_sep by blast
  ultimately have "py_split ''::'' (a @ ''::'' @ path) = [a, path]"
    by (simp add: py_split_def)
  with a show "execute_result (a @ ''::'' @ path) stderr4 = Inr (Completed path)"
    by (simp add: execute_result_def)
qed

text \<open>
  The diagnostic text \<open>error::disk full\<close> of the specification, and a successful run.
\<close>

theorem run_outcome_witness:
  "py_in ''error'' ''2024/01/01 request failed: error::disk full''
   \<and> execute_result ''ignored::/tmp/none.dss'' ''2024/01/01 request failed: error::disk full''
       = Inr (Failed ''disk full'')
   \<and> (py_in ''error'' (''error'' @ ''::'' @ ''disk full'') \<and> (''error'' = [] \<or> last ''error'' \<noteq> CHR '':'')
        \<and> \<not> py_in ''::'' ''disk full'')
   \<and> execute_result [] (''error'' @ ''::'' @ ''disk full'') = Inr (Failed ''disk full'')
   \<and> (\<not> py_in ''error'' ''Progress: 100'' \<and> py_split ''::'' ''grid::/tmp/cumulus.dss'' = [''grid'', ''/tmp/cumulus.dss''])
   \<and> execute_result ''grid::/tmp/cumulus.dss'' ''Progress: 100'' = Inr (Completed ''/tmp/cumulus.dss'')
   \<and> (\<not> py_in ''error'' ''Progress: 100'' \<and> \<not> py_in ''::'' ''grid'' \<and> (''grid'' = [] \<or> last ''grid'' \<noteq> CHR '':'')
        \<and> \<not> py_in ''::'' ''/tmp/cumulus.dss'')
   \<and> execute_result (''grid'' @ ''::'' @ ''/tmp/cumulus.dss'') ''Progress: 100'' = Inr (Completed ''/tmp/cumulus.dss'')"
proof -
  have h1: "py_in ''error'' ''2024/01/01 request failed: error::disk full''" by simp
  have h2: "py_in ''error'' (''error'' @ ''::'' @ ''disk full'') \<and> (''error'' = [] \<or> last ''error'' \<noteq> CHR '':'')
        \<and> \<not> py_in ''::'' ''disk full''" by simp
  have h3: "\<not> py_in ''error'' ''Progress: 100'' \<and> py_split ''::'' ''grid::/tmp/cumulus.dss'' = [''grid'', ''/tmp/cumulus.dss'']"
    by (simp add: py_split_def)
  have h4: "\<not> py_in ''error'' ''Progress: 100'' \<and> \<not> py_in ''::'' ''grid'' \<and> (''grid'' = [] \<or> last ''grid'' \<noteq> CHR '':'')
        \<and> \<not> py_in ''::'' ''/tmp/cumulus.dss''" by simp
  have l: "last (py_split ''::'' ''2024/01/01 request failed: error::disk full'') = ''disk full''"
    by (simp add: py_split_def)
  show ?thesis
    using h1 h2 h3 h4 l
      run_outcome [of "''2024/01/01 request failed: error::disk full''" "''ignored::/tmp/none.dss''"
        "''error''" "''disk full''" "[]" "''Progress: 100''" "''grid::/tmp/cumulus.dss''" "''grid''"
        "''/tmp/cumulus.dss''" "''Progress: 100''" "''grid''" "''/tmp/cumulus.dss''"]
    by simp
qed


section \<open>Properties of the metadata request\<close>

lemma get_metadata_try_frame:
  "get_metadata_try go_get loads_p loads_w s0 = (r, s') \<Longrightarrow>
   s'\<lparr>go_cfg := c, products_meta := pm, watersheds_meta := wm, reports := rp\<rparr>
   = s0\<lparr>go_cfg := c, products_meta := pm, watersheds_meta := wm, reports := rp\<rparr>"
  unfolding get_metadata_try_def Let_def report_def
  by (auto split: sum.splits if_splits prod.splits)

text \<open>
  C9.  On every way out of \<open>get_metadata\<close> the configuration \<open>go_config\<close> is what it was at
  entry, and the state differs from the entry state at most in \<open>products_meta\<close>,
  \<open>watersheds_meta\<close> and the reported messages.  With cached metadata the call returns it
  and leaves the state alone.  When the first request reports an error, the call raises
  \<open>CumulusConnectionError\<close> with the diagnostic text, after the worker has seen the
  mutated configuration, and \<open>go_config\<close> is restored all the same.
\<close>

theorem get_metadata_restores_go_config:
  "go_cfg (snd (get_metadata go_get loads_p loads_w s)) = go_cfg s
   \<and> (snd (get_metadata go_get loads_p loads_w s))
        \<lparr>products_meta := products_meta s, watersheds_meta := watersheds_meta s, reports := reports s\<rparr> = s
   \<and> (truthy (products_meta s1) \<and> truthy (watersheds_meta s1) \<longrightarrow>
        get_metadata go_get1 loads_p1 loads_w1 s1 = (Inr (products_meta s1, watersheds_meta s1), s1))
   \<and> (\<not> (truthy (products_meta s2) \<and> truthy (watersheds_meta s2))
        \<and> go_get2 ((go_cfg s2)\<lparr>StdOut := Some ''true'', Subcommand := Some ''get'', Endpoint := Some ''products''\<rparr>)
            = Inr (out, err)
        \<and> py_in ''error'' err \<longrightarrow>
        fst (get_metadata go_get2 loads_p2 loads_w2 s2) = Inl (CumulusConnectionError err)
        \<and> go_cfg (snd (get_metadata go_get2 loads_p2 loads_w2 s2)) = go_cfg s2)"
proof (intro conjI impI)
  show g: "go_cfg (snd (get_metadata go_get loads_p loads_w s)) = go_cfg s" for go_get loads_p loads_w s
    unfolding get_metadata_def Let_def report_def
    by (simp split: prod.splits)
  show "(snd (get_metadata go_get loads_p loads_w s))
        \<lparr>products_meta := products_meta s, watersheds_meta := watersheds_meta s, reports := reports s\<rparr> = s"
  proof (cases "truthy (products_meta s) \<and> truthy (watersheds_meta s)")
    case True
    then show ?thesis by (simp add: get_metadata_def)
  next
    case False
    obtain r s' where t: "get_metadata_try go_get loads_p loads_w
        (report ''Retrieving Cumulus product and watershed metadata...'' s) = (r, s')"
      by (cases "get_metadata_try go_get loads_p loads_w
        (report ''Retrieving Cumulus product and watershed metadata...'' s)") auto
    from get_metadata_try_frame [OF t, where c = "go_cfg s" and pm = "products_meta s"
        and wm = "watersheds_meta s" and rp = "reports s"]
    have "s'\<lparr>go_cfg := go_cfg s, products_meta := products_meta s, watersheds_meta := watersheds_meta s,
              reports := reports s\<rparr> = s"
      by (simp add: report_def)
    with False t show ?thesis
      by (simp add: get_metadata_def Let_def report_def)
  qed
  show "get_metadata go_get1 loads_p1 loads_w1 s1 = (Inr (products_meta s1, watersheds_meta s1), s1)"
    if "truthy (products_meta s1) \<and> truthy (watersheds_meta s1)"
    using that by (simp add: get_metadata_def)
  assume a: "\<not> (truthy (products_meta s2) \<and> truthy (watersheds_meta s2))
        \<and> go_get2 ((go_cfg s2)\<lparr>StdOut := Some ''true'', Subcommand := Some ''get'', Endpoint := Some ''products''\<rparr>)
            = Inr (out, err)
        \<and> py_in ''error'' err"
  then show "fst (get_metadata go_get2 loads_p2 loads_w2 s2) = Inl (CumulusConnectionError err)"
    by (simp add: get_metadata_def get_metadata_try_def Let_def report_def)
  show "go_cfg (snd (get_metadata go_get2 loads_p2 loads_w2 s2)) = go_cfg s2"
    by (rule g)
qed

text \<open>
  A first call that loads the metadata, a call on cached metadata, and a call against a
  worker that reports an error.
\<close>

theorem get_metadata_restores_go_config_witness:
  "get_metadata ex_go_get ex_loads_p ex_loads_w ex_state
     = (Inr (Some ex_products, Some ex_watersheds),
        ex_state\<lparr>products_meta := Some ex_products, watersheds_meta := Some ex_watersheds,
                 reports := [''Retrieving Cumulus product and watershed metadata...'', ''Metadata retrieved!'']\<rparr>)
   \<and> go_cfg (snd (get_metadata ex_go_get ex_loads_p ex_loads_w ex_state)) = go_cfg ex_state
   \<and> (truthy (products_meta ex_cached) \<and> truthy (watersheds_meta ex_cached))
   \<and> get_metadata ex_go_get ex_loads_p ex_loads_w ex_cached
       = (Inr (products_meta ex_cached, watersheds_meta ex_cached), ex_cached)
   \<and> (\<not> (truthy (products_meta ex_state) \<and> truthy (watersheds_meta ex_state))
        \<and> ex_go_get_down ((go_cfg ex_state)\<lparr>StdOut := Some ''true'', Subcommand := Some ''get'',
                                             Endpoint := Some ''products''\<rparr>)
            = Inr ([], ''error::connection refused'')
        \<and> py_in ''error'' ''error::connection refused'')
   \<and> fst (get_metadata ex_go_get_down ex_loads_p ex_loads_w ex_state)
       = Inl (CumulusConnectionError ''error::connection refused'')
   \<and> go_cfg (snd (get_metadata ex_go_get_down ex_loads_p ex_loads_w ex_state)) = go_cfg ex_state"
proof -
  have r: "get_metadata ex_go_get ex_loads_p ex_loads_w ex_state
     = (Inr (Some ex_products, Some ex_watersheds),
        ex_state\<lparr>products_meta := Some ex_products, watersheds_meta := Some ex_watersheds,
                 reports := [''Retrieving Cumulus product and watershed metadata...'', ''Metadata retrieved!'']\<rparr>)"
    by (simp add: get_metadata_def get_metadata_try_def Let_def report_def ex_state_def ex_go_get_def
        ex_loads_p_def ex_loads_w_def)
  have h1: "truthy (products_meta ex_cached) \<and> truthy (watersheds_meta ex_cached)"
    by (simp add: ex_cached_def ex_products_def ex_watersheds_def)
  have h2: "\<not> (truthy (products_meta ex_state) \<and> truthy (watersheds_meta ex_state))
        \<and> ex_go_get_down ((go_cfg ex_state)\<lparr>StdOut := Some ''true'', Subcommand := Some ''get'',
                                             Endpoint := Some ''products''\<rparr>)
            = Inr ([], ''error::connection refused'')
        \<and> py_in ''error'' ''error::connection refused''"
    by (simp add: ex_state_def ex_go_get_down_def)
  from get_metadata_restores_go_config [of ex_go_get ex_loads_p ex_loads_w ex_state ex_cached
      ex_go_get ex_loads_p ex_loads_w ex_state ex_go_get_down "[]" "''error::connection refused''"
      ex_loads_p ex_loads_w] r h1 h2
  show ?thesis by simp
qed


section \<open>Properties of the record dates\<close>

lemma digit_chars: "list_all (\<lambda>k. is_digit (digit_char k) \<and> digit_val (digit_char k) = k) [0..<10]"
  by code_simp

lemma digit_char_ok: "k < 10 \<Longrightarrow> is_digit (digit_char k) \<and> digit_val (digit_char k) = k"
  using digit_chars by (simp add: list_all_iff)

lemma is_digit_val: "is_digit c \<Longrightarrow> digit_val c \<le> 9"
  by (auto simp: is_digit_def digit_val_def)

lemma alts_day_table:
  "list_all (\<lambda>d. alts D_d (pad2 d @ rest) \<noteq> [] \<and> hd (alts D_d (pad2 d @ rest)) = (d, rest)) [1..<32]"
  by code_simp

lemma month_name_table:
  "list_all (\<lambda>m. length (month_name m) = 3 \<and> index_of (py_lower (month_name m)) month_abbrs = Some (m - 1))
     [1..<13]"
  by code_simp

lemma alts_month:
  assumes "1 \<le> m" "m \<le> 12"
  shows "alts D_b (month_name m @ rest) = [(m, rest)]"
proof -
  have "m \<in> set [1..<13]" using assms by simp
  with month_name_table have "length (month_name m) = 3"
    and "index_of (py_lower (month_name m)) month_abbrs = Some (m - 1)"
    by (simp_all add: list_all_iff)
  with assms(1) show ?thesis by simp
qed

lemma alts_day:
  assumes "1 \<le> d" "d \<le> 31"
  shows "\<exists>more. alts D_d (pad2 d @ rest) = (d, rest) # more"
proof -
  have "d \<in> set [1..<32]" using assms by simp
  with alts_day_table [of rest]
  have "alts D_d (pad2 d @ rest) \<noteq> []" and "hd (alts D_d (pad2 d @ rest)) = (d, rest)"
    by (simp_all add: list_all_iff)
  then show ?thesis by (cases "alts D_d (pad2 d @ rest)") auto
qed

lemma py_int_pad4: "y \<le> 9999 \<Longrightarrow> list_all is_digit (pad4 y) \<and> py_int (pad4 y) = y"
proof -
  assume y: "y \<le> 9999"
  have d: "digit_val (digit_char (y div 1000 mod 10)) = y div 1000 mod 10"
    "digit_val (digit_char (y div 100 mod 10)) = y div 100 mod 10"
    "digit_val (digit_char (y div 10 mod 10)) = y div 10 mod 10"
    "digit_val (digit_char (y mod 10)) = y mod 10"
    by (simp_all add: digit_char_ok)
  have i: "is_digit (digit_char (y div 1000 mod 10))" "is_digit (digit_char (y div 100 mod 10))"
    "is_digit (digit_char (y div 10 mod 10))" "is_digit (digit_char (y mod 10))"
    by (simp_all add: digit_char_ok)
  define a where "a = y div 10"
  define b where "b = a div 10"
  define c where "c = b div 10"
  have e2: "y div 100 = b"
    using div_mult2_eq [of y 10 10] by (simp add: a_def b_def)
  have e3: "y div 1000 = c"
    using div_mult2_eq [of y 100 10] e2 by (simp add: c_def)
  have "y div 1000 < 10" using y by (simp add: less_mult_imp_div_less)
  then have c10: "c mod 10 = c" using e3 by simp
  have "y = 10 * a + y mod 10" by (simp add: a_def)
  moreover have "a = 10 * b + a mod 10" by (simp add: b_def)
  moreover have "b = 10 * c + b mod 10" by (simp add: c_def)
  ultimately have "10 * (10 * (10 * c + b mod 10) + a mod 10) + y mod 10 = y"
    by simp
  then have "10 * (10 * (10 * (y div 1000 mod 10) + y div 100 mod 10) + y div 10 mod 10) + y mod 10 = y"
    using e2 e3 c10 by (simp add: a_def)
  with d i show ?thesis by (simp add: pad4_def py_int_def)
qed

lemma alts_year:
  assumes "y \<le> 9999"
  shows "alts D_Y (pad4 y @ rest) = [(y, rest)]"
proof -
  have "length (pad4 y) = 4" by (simp add: pad4_def)
  with py_int_pad4 [OF assms] show ?thesis by simp
qed

lemma days_in_month_table:
  "list_all (\<lambda>m. 28 \<le> days_in_month y m \<and> days_in_month y m \<le> 31) [1..<13]"
  by (simp add: days_in_month_def upt_rec)

lemma compile_formats:
  "compile_format ''%d%b%Y:%H%M'' = [D_d, D_b, D_Y, D_lit CHR '':'', D_H, D_M]"
  "compile_format ''%d%b%Y:0000''
     = [D_d, D_b, D_Y, D_lit CHR '':'', D_lit CHR ''0'', D_lit CHR ''0'', D_lit CHR ''0'', D_lit CHR ''0'']"
  "compile_format ''%d%b%Y:2400''
     = [D_d, D_b, D_Y, D_lit CHR '':'', D_lit CHR ''2'', D_lit CHR ''4'', D_lit CHR ''0'', D_lit CHR ''0'']"
  by simp_all

lemma match_time_0000:
  "match_format [D_lit CHR '':'', D_H, D_M] '':0000'' t = Some (t\<lparr>tm_hour := 0, tm_min := 0\<rparr>, [])"
  by (simp add: two_digits_def one_digit_def digit_val_def lower_char_def)

lemma match_formatted:
  assumes "1 \<le> d" "d \<le> 31" "1 \<le> m" "m \<le> 12" "y \<le> 9999"
  shows "match_format [D_d, D_b, D_Y, D_lit CHR '':'', D_H, D_M]
           (pad2 d @ month_name m @ pad4 y @ '':0000'') t
         = Some (t\<lparr>tm_mday := d, tm_mon := m, tm_year := y, tm_hour := 0, tm_min := 0\<rparr>, [])"
proof -
  obtain more where day: "alts D_d (pad2 d @ month_name m @ pad4 y @ '':0000'')
      = (d, month_name m @ pad4 y @ '':0000'') # more"
    using alts_day [OF assms(1,2)] by blast
  have mon: "alts D_b (month_name m @ pad4 y @ '':0000'') = [(m, pad4 y @ '':0000'')]"
    by (rule alts_month [OF assms(3,4)])
  have yr: "alts D_Y (pad4 y @ '':0000'') = [(y, '':0000'')]"
    by (rule alts_year [OF assms(5)])
  have "match_format [D_Y, D_lit CHR '':'', D_H, D_M] (pad4 y @ '':0000'') t'
        = Some (t'\<lparr>tm_year := y, tm_hour := 0, tm_min := 0\<rparr>, [])" for t'
    using match_time_0000 [of "t'\<lparr>tm_year := y\<rparr>"]
    by (simp only: match_format.simps(2) [of D_Y] yr first_some.simps fst_conv snd_conv set_field.simps) simp
  then have "match_format [D_b, D_Y, D_lit CHR '':'', D_H, D_M] (month_name m @ pad4 y @ '':0000'') t'
        = Some (t'\<lparr>tm_mon := m, tm_year := y, tm_hour := 0, tm_min := 0\<rparr>, [])" for t'
    by (simp only: match_format.simps(2) [of D_b] mon first_some.simps fst_conv snd_conv set_field.simps) simp
  then show ?thesis
    by (simp only: match_format.simps(2) [of D_d] day first_some.simps fst_conv snd_conv set_field.simps) simp
qed

lemma strftime_0000:
  "1900 \<le> y \<Longrightarrow>
   strftime (y, m, d, hh, mi, ss) ''%d%b%Y:0000'' = Inr (pad2 d @ month_name m @ pad4 y @ '':0000'')"
  by (simp add: strftime_def compile_formats)

lemma strptime_formatted:
  assumes "1 \<le> d" "d \<le> days_in_month y m" "1 \<le> m" "m \<le> 12" "1 \<le> y" "y \<le> 9999"
  shows "strptime (pad2 d @ month_name m @ pad4 y @ '':0000'') ''%d%b%Y:%H%M'' = Inr (y, m, d, 0, 0, 0)"
proof -
  have "m \<in> set [1..<13]" using assms(3,4) by simp
  with days_in_month_table [of y] have "days_in_month y m \<le> 31" by (simp add: list_all_iff)
  with assms(2) have "d \<le> 31" by simp
  from match_formatted [OF assms(1) this assms(3,4,6), of tm_default] assms(1,2,5)
  show ?thesis by (simp add: strptime_def compile_formats)
qed

lemma first_some_SomeD: "first_some f xs = Some y \<Longrightarrow> \<exists>x \<in> set xs. f x = Some y"
  by (induction xs) (auto split: option.splits)

lemma match_format_invariant:
  assumes "match_format ds s t = Some (t', r)" and "P t"
    and step: "\<And>d v r' s' u. d \<in> set ds \<Longrightarrow> (v, r') \<in> set (alts d s') \<Longrightarrow> P u \<Longrightarrow> P (set_field d v u)"
  shows "P t'"
  using assms(1,2) step
proof (induction ds arbitrary: s t)
  case Nil
  then show ?case by simp
next
  case (Cons d ds)
  from Cons.prems(1) obtain vr where vr: "vr \<in> set (alts d s)"
    and m: "match_format ds (snd vr) (set_field d (fst vr) t) = Some (t', r)"
    using first_some_SomeD [of "\<lambda>vr. match_format ds (snd vr) (set_field d (fst vr) t)" "alts d s" "(t', r)"]
    by auto
  have "P (set_field d (fst vr) t)"
    using Cons.prems(3) [of d "fst vr" "snd vr" s t] vr Cons.prems(2) by simp
  from Cons.IH [OF m this] Cons.prems(3) show ?case by simp
qed

lemma index_of_less: "index_of x ys = Some i \<Longrightarrow> i < length ys"
  by (induction ys arbitrary: i) (auto split: if_splits)

lemma py_int_four_digits:
  assumes "length ds = 4" "list_all is_digit ds"
  shows "py_int ds \<le> 9999"
proof -
  from assms(1) obtain a b c e where ds: "ds = [a, b, c, e]"
    by (cases ds; cases "tl ds"; cases "tl (tl ds)"; cases "tl (tl (tl ds))") auto
  with assms(2) have "digit_val a \<le> 9" "digit_val b \<le> 9" "digit_val c \<le> 9" "digit_val e \<le> 9"
    by (simp_all add: is_digit_val)
  then show ?thesis by (simp add: ds py_int_def)
qed

lemma date_step:
  assumes "d \<in> set (compile_format ''%d%b%Y:2400'')" "(v, r') \<in> set (alts d s')" "date_fields_ok u"
  shows "date_fields_ok (set_field d v u)"
proof -
  from assms(1) consider "d = D_d" | "d = D_b" | "d = D_Y" | c where "d = D_lit c"
    by (auto simp: compile_formats)
  then show ?thesis
  proof cases
    case 1
    with assms(3) show ?thesis by (simp add: date_fields_ok_def)
  next
    case 2
    with assms(2) have "\<exists>i. index_of (py_lower (take 3 s')) month_abbrs = Some i \<and> v = i + 1"
      by (cases "index_of (py_lower (take 3 s')) month_abbrs") auto
    then obtain i where "index_of (py_lower (take 3 s')) month_abbrs = Some i" "v = i + 1"
      by blast
    with index_of_less [of "py_lower (take 3 s')" month_abbrs i] have "1 \<le> v \<and> v \<le> 12"
      by (simp add: month_abbrs_def)
    with 2 assms(3) show ?thesis by (simp add: date_fields_ok_def)
  next
    case 3
    with assms(2) have "v = py_int (take 4 s')" "4 \<le> length s'" "list_all is_digit (take 4 s')"
      by (auto split: if_splits)
    with py_int_four_digits [of "take 4 s'"] have "v \<le> 9999" by simp
    with 3 assms(3) show ?thesis by (simp add: date_fields_ok_def)
  next
    case 4
    with assms(3) show ?thesis by simp
  qed
qed

lemma strptime_2400_fields:
  assumes "strptime e ''%d%b%Y:2400'' = Inr (y, m, d, hh, mi, ss)"
  shows "hh = 0 \<and> mi = 0 \<and> ss = 0 \<and> 1 \<le> m \<and> m \<le> 12 \<and> 1 \<le> y \<and> y \<le> 9999
         \<and> 1 \<le> d \<and> d \<le> days_in_month y m"
proof -
  from assms obtain t where m: "match_format (compile_format ''%d%b%Y:2400'') e tm_default = Some (t, [])"
    and v: "1 \<le> tm_year t \<and> 1 \<le> tm_mday t \<and> tm_mday t \<le> days_in_month (tm_year t) (tm_mon t)"
    and dt: "(y, m, d, hh, mi, ss) = (tm_year t, tm_mon t, tm_mday t, tm_hour t, tm_min t, 0)"
    unfolding strptime_def by (auto split: option.splits if_splits)
  have init: "date_fields_ok tm_default" by (simp add: date_fields_ok_def tm_default_def)
  have "date_fields_ok t"
  proof (rule match_format_invariant [where P = date_fields_ok, OF m init])
    fix d v r' s' u
    assume "d \<in> set (compile_format ''%d%b%Y:2400'')" "(v, r') \<in> set (alts d s')" "date_fields_ok u"
    then show "date_fields_ok (set_field d v u)" by (rule date_step)
  qed
  with v dt show ?thesis by (simp add: date_fields_ok_def)
qed

lemma add_one_day_valid:
  assumes "1 \<le> m" "m \<le> 12" "1 \<le> y" "y \<le> 9999" "1 \<le> d" "d \<le> days_in_month y m"
    and "(y, m, d) \<noteq> (9999, 12, 31)"
  shows "\<exists>y' m' d'. add_one_day (y, m, d, 0, 0, 0) = Inr (y', m', d', 0, 0, 0)
           \<and> y \<le> y' \<and> y' \<le> 9999 \<and> 1 \<le> m' \<and> m' \<le> 12 \<and> 1 \<le> d' \<and> d' \<le> days_in_month y' m'"
proof -
  have dim: "28 \<le> days_in_month y' m'" for y' m'
    by (simp add: days_in_month_def)
  have dec: "days_in_month y 12 = 31" by (simp add: days_in_month_def)
  show ?thesis
  proof (cases "d < days_in_month y m")
    case True
    with assms show ?thesis by (simp add: add_one_day_def)
  next
    case last_day: False
    show ?thesis
    proof (cases "m < 12")
      case True
      with last_day assms dim [of y "m + 1"] show ?thesis by (simp add: add_one_day_def)
    next
      case False
      with assms(2) have m12: "m = 12" by simp
      with last_day assms(6) dec have "d = 31" by simp
      with m12 assms(7) assms(4) have "y < 9999" by simp
      with last_day m12 dim [of "y + 1" 1] show ?thesis by (simp add: add_one_day_def)
    qed
  qed
qed

text \<open>
  C10.  For a path whose sixth part ends in \<open>2400\<close> and is a date followed by \<open>:2400\<close>
  (from the year 1900 on, which \<open>strftime\<close> needs, and before the last day of 9999), and
  whose fifth part is a date and time, \<open>get_precip_record_datetimes\<close> returns the parsed
  start and, as the end, 00:00 on the day after the date of the sixth part.  For a path
  whose sixth part does not end in \<open>2400\<close>, both parts are parsed as they are with
  \<open>%d%b%Y:%H%M\<close>.
\<close>

theorem end_2400_is_next_midnight:
  "(py_split ''/'' pathname = parts \<and> 5 < length parts
      \<and> drop (length (parts ! 5) - 4) (parts ! 5) = ''2400''
      \<and> strptime (parts ! 5) ''%d%b%Y:2400'' = Inr (y, m, d, hms)
      \<and> 1900 \<le> y \<and> (y, m, d) \<noteq> (9999, 12, 31)
      \<and> strptime (parts ! 4) ''%d%b%Y:%H%M'' = Inr start
    \<longrightarrow> (\<exists>nd. add_one_day (y, m, d, 0, 0, 0) = Inr nd \<and> snd (snd (snd nd)) = (0, 0, 0)
              \<and> get_precip_record_datetimes pathname = Inr (start, nd)))
   \<and> (py_split ''/'' pathname2 = parts2 \<and> 5 < length parts2
      \<and> drop (length (parts2 ! 5) - 4) (parts2 ! 5) \<noteq> ''2400''
      \<and> strptime (parts2 ! 4) ''%d%b%Y:%H%M'' = Inr start2
      \<and> strptime (parts2 ! 5) ''%d%b%Y:%H%M'' = Inr end2
    \<longrightarrow> get_precip_record_datetimes pathname2 = Inr (start2, end2))"
proof (intro conjI impI)
  assume a: "py_split ''/'' pathname = parts \<and> 5 < length parts
      \<and> drop (length (parts ! 5) - 4) (parts ! 5) = ''2400''
      \<and> strptime (parts ! 5) ''%d%b%Y:2400'' = Inr (y, m, d, hms)
      \<and> 1900 \<le> y \<and> (y, m, d) \<noteq> (9999, 12, 31)
      \<and> strptime (parts ! 4) ''%d%b%Y:%H%M'' = Inr start"
  obtain hh mi ss where hms: "hms = (hh, mi, ss)" by (cases hms) auto
  with a have p: "strptime (parts ! 5) ''%d%b%Y:2400'' = Inr (y, m, d, hh, mi, ss)" by simp
  from strptime_2400_fields [OF p]
  have f: "hh = 0" "mi = 0" "ss = 0" "1 \<le> m" "m \<le> 12" "1 \<le> y" "y \<le> 9999" "1 \<le> d"
    "d \<le> days_in_month y m" by simp_all
  from a have ne: "(y, m, d) \<noteq> (9999, 12, 31)" by simp
  from add_one_day_valid [OF f(4,5,6,7,8,9) ne] obtain y' m' d' where
    nd: "add_one_day (y, m, d, 0, 0, 0) = Inr (y', m', d', 0, 0, 0)"
    and v: "y \<le> y'" "y' \<le> 9999" "1 \<le> m'" "m' \<le> 12" "1 \<le> d'" "d' \<le> days_in_month y' m'"
    by blast
  have yb: "1900 \<le> y'" "1 \<le> y'" using a v(1) by simp_all
  have fmt: "strftime (y', m', d', 0, 0, 0) ''%d%b%Y:0000'' = Inr (pad2 d' @ month_name m' @ pad4 y' @ '':0000'')"
    by (rule strftime_0000 [OF yb(1)])
  have again: "strptime (pad2 d' @ month_name m' @ pad4 y' @ '':0000'') ''%d%b%Y:%H%M'' = Inr (y', m', d', 0, 0, 0)"
    by (rule strptime_formatted [OF v(5,6,3,4) yb(2) v(2)])
  have "get_precip_record_datetimes pathname = Inr (start, (y', m', d', 0, 0, 0))"
    unfolding get_precip_record_datetimes_def Let_def
    using a p f(1,2,3) hms nd fmt again by simp
  with nd show "\<exists>nd. add_one_day (y, m, d, 0, 0, 0) = Inr nd \<and> snd (snd (snd nd)) = (0, 0, 0)
              \<and> get_precip_record_datetimes pathname = Inr (start, nd)"
    by simp
next
  assume "py_split ''/'' pathname2 = parts2 \<and> 5 < length parts2
      \<and> drop (length (parts2 ! 5) - 4) (parts2 ! 5) \<noteq> ''2400''
      \<and> strptime (parts2 ! 4) ''%d%b%Y:%H%M'' = Inr start2
      \<and> strptime (parts2 ! 5) ''%d%b%Y:%H%M'' = Inr end2"
  then show "get_precip_record_datetimes pathname2 = Inr (start2, end2)"
    unfolding get_precip_record_datetimes_def Let_def by simp
qed

text \<open>
  A record that ends at midnight and one that does not.  Parsing \<open>04JAN2024:2400\<close> with
  \<open>%d%b%Y:%H%M\<close> itself is a \<open>ValueError\<close>.
\<close>

theorem end_2400_is_next_midnight_witness:
  "py_split ''/'' ''/SHG/KANAWHA/PRECIP/04JAN2024:2300/04JAN2024:2400/MRMS/''
     = [[], ''SHG'', ''KANAWHA'', ''PRECIP'', ''04JAN2024:2300'', ''04JAN2024:2400'', ''MRMS'', []]
   \<and> strptime ''04JAN2024:2400'' ''%d%b%Y:2400'' = Inr (2024, 1, 4, 0, 0, 0)
   \<and> strptime ''04JAN2024:2400'' ''%d%b%Y:%H%M'' = Inl ValueError
   \<and> strptime ''04JAN2024:2300'' ''%d%b%Y:%H%M'' = Inr (2024, 1, 4, 23, 0, 0)
   \<and> get_precip_record_datetimes ''/SHG/KANAWHA/PRECIP/04JAN2024:2300/04JAN2024:2400/MRMS/''
       = Inr ((2024, 1, 4, 23, 0, 0), (2024, 1, 5, 0, 0, 0))
   \<and> py_split ''/'' ''/SHG/KANAWHA/PRECIP/01JAN2024:0000/01JAN2024:0100/MRMS/''
     = [[], ''SHG'', ''KANAWHA'', ''PRECIP'', ''01JAN2024:0000'', ''01JAN2024:0100'', ''MRMS'', []]
   \<and> strptime ''01JAN2024:0000'' ''%d%b%Y:%H%M'' = Inr (2024, 1, 1, 0, 0, 0)
   \<and> strptime ''01JAN2024:0100'' ''%d%b%Y:%H%M'' = Inr (2024, 1, 1, 1, 0, 0)
   \<and> get_precip_record_datetimes ''/SHG/KANAWHA/PRECIP/01JAN2024:0000/01JAN2024:0100/MRMS/''
       = Inr ((2024, 1, 1, 0, 0, 0), (2024, 1, 1, 1, 0, 0))"
proof -
  let ?parts = "[[], ''SHG'', ''KANAWHA'', ''PRECIP'', ''04JAN2024:2300'', ''04JAN2024:2400'', ''MRMS'', []]"
  let ?parts2 = "[[], ''SHG'', ''KANAWHA'', ''PRECIP'', ''01JAN2024:0000'', ''01JAN2024:0100'', ''MRMS'', []]"
  have s1: "py_split ''/'' ''/SHG/KANAWHA/PRECIP/04JAN2024:2300/04JAN2024:2400/MRMS/'' = ?parts"
    by code_simp
  have s2: "py_split ''/'' ''/SHG/KANAWHA/PRECIP/01JAN2024:0000/01JAN2024:0100/MRMS/'' = ?parts2"
    by code_simp
  have p1: "strptime ''04JAN2024:2400'' ''%d%b%Y:2400'' = Inr (2024, 1, 4, 0, 0, 0)" by code_simp
  have p2: "strptime ''04JAN2024:2400'' ''%d%b%Y:%H%M'' = Inl ValueError" by code_simp
  have p3: "strptime ''04JAN2024:2300'' ''%d%b%Y:%H%M'' = Inr (2024, 1, 4, 23, 0, 0)" by code_simp
  have p4: "strptime ''01JAN2024:0000'' ''%d%b%Y:%H%M'' = Inr (2024, 1, 1, 0, 0, 0)" by code_simp
  have p5: "strptime ''01JAN2024:0100'' ''%d%b%Y:%H%M'' = Inr (2024, 1, 1, 1, 0, 0)" by code_simp
  have n: "add_one_day (2024, 1, 4, 0, 0, 0) = Inr (2024, 1, 5, 0, 0, 0)" by code_simp
  have h1: "py_split ''/'' ''/SHG/KANAWHA/PRECIP/04JAN2024:2300/04JAN2024:2400/MRMS/'' = ?parts
      \<and> 5 < length ?parts
      \<and> drop (length (?parts ! 5) - 4) (?parts ! 5) = ''2400''
      \<and> strptime (?parts ! 5) ''%d%b%Y:2400'' = Inr (2024, 1, 4, 0, 0, 0)
      \<and> (1900::nat) \<le> 2024 \<and> ((2024, 1, 4) :: nat \<times> nat \<times> nat) \<noteq> (9999, 12, 31)
      \<and> strptime (?parts ! 4) ''%d%b%Y:%H%M'' = Inr (2024, 1, 4, 23, 0, 0)"
    using s1 p1 p3 by simp
  have h2: "py_split ''/'' ''/SHG/KANAWHA/PRECIP/01JAN2024:0000/01JAN2024:0100/MRMS/'' = ?parts2
      \<and> 5 < length ?parts2
      \<and> drop (length (?parts2 ! 5) - 4) (?parts2 ! 5) \<noteq> ''2400''
      \<and> strptime (?parts2 ! 4) ''%d%b%Y:%H%M'' = Inr (2024, 1, 1, 0, 0, 0)
      \<and> strptime (?parts2 ! 5) ''%d%b%Y:%H%M'' = Inr (2024, 1, 1, 1, 0, 0)"
    using s2 p4 p5 by simp
  from end_2400_is_next_midnight [of "''/SHG/KANAWHA/PRECIP/04JAN2024:2300/04JAN2024:2400/MRMS/''" ?parts
      2024 1 4 "(0, 0, 0)" "(2024, 1, 4, 23, 0, 0)"
      "''/SHG/KANAWHA/PRECIP/01JAN2024:0000/01JAN2024:0100/MRMS/''" ?parts2
      "(2024, 1, 1, 0, 0, 0)" "(2024, 1, 1, 1, 0, 0)"] h1 h2
  have "(\<exists>nd. add_one_day (2024, 1, 4, 0, 0, 0) = Inr nd \<and> snd (snd (snd nd)) = (0, 0, 0)
              \<and> get_precip_record_datetimes ''/SHG/KANAWHA/PRECIP/04JAN2024:2300/04JAN2024:2400/MRMS/''
                  = Inr ((2024, 1, 4, 23, 0, 0), nd))"
    and g2: "get_precip_record_datetimes ''/SHG/KANAWHA/PRECIP/01JAN2024:0000/01JAN2024:0100/MRMS/''
       = Inr ((2024, 1, 1, 0, 0, 0), (2024, 1, 1, 1, 0, 0))"
    by blast+
  then have g1: "get_precip_record_datetimes ''/SHG/KANAWHA/PRECIP/04JAN2024:2300/04JAN2024:2400/MRMS/''
       = Inr ((2024, 1, 4, 23, 0, 0), (2024, 1, 5, 0, 0, 0))"
    using n by auto
  from s1 s2 p1 p2 p3 p4 p5 g1 g2 show ?thesis by blast
qed



section \<open>Properties of the ingestion loop\<close>

lemma main_loop_collect:
  "CHR ''}'' \<notin> set body \<Longrightarrow>
   main_loop lib (body @ bs) byte_array store out = main_loop lib bs (byte_array @ body) store out"
  by (induction body arbitrary: byte_array) auto

lemma main_loop_record:
  assumes "CHR ''}'' \<notin> set body"
  shows "main_loop lib (body @ ''}'' @ rest) [] store out =
         (case json_loads lib (body @ ''}'') of
            Inl e \<Rightarrow> Inl e
          | Inr obj \<Rightarrow>
              (case message obj of
                 Some m \<Rightarrow> Inl (ProviderMessage m)
               | None \<Rightarrow>
                   (case put_to_dss lib obj store of
                      Inl e \<Rightarrow> Inl e
                    | Inr (pr, msg, store') \<Rightarrow>
                        main_loop lib rest [] store'
                          (out @ [Text (body @ ''}'')] @ pr
                           @ (case msg of None \<Rightarrow> [] | Some m \<Rightarrow> [Text m])))))"
  using main_loop_collect [OF assms, of lib "''}'' @ rest" "[]" store out] by simp

text \<open>
  C4, amended.  The loop keeps no depth: it hands the buffer to \<open>json.loads\<close> at every
  byte \<open>}\<close>.  A record with no \<open>}\<close> before its last byte, read with an empty buffer, is
  handed over as one unit, exactly as sent; when it decodes to a site object and
  \<open>put_to_dss\<close> returns, the loop goes on behind the record with an empty buffer.
\<close>

theorem record_without_inner_brace_is_one_unit:
  assumes "CHR ''}'' \<notin> set body"
    and "json_loads lib (body @ ''}'') = Inr obj" and "message obj = None"
    and "put_to_dss lib obj store = Inr (pr, msg, store')"
  shows "main_loop lib (body @ ''}'' @ rest) [] store out
         = main_loop lib rest [] store'
             (out @ [Text (body @ ''}'')] @ pr @ (case msg of None \<Rightarrow> [] | Some m \<Rightarrow> [Text m]))"
  using main_loop_record [OF assms(1), of lib rest store out] assms(2,3,4) by simp

text \<open>
  C4, as the claim states it, fails: a valid record with an object inside is cut at the
  first \<open>}\<close>, the piece is not JSON, and \<open>json.loads\<close> raises out of the loop; the record
  is never yielded.
\<close>

theorem nested_record_is_cut_at_first_close:
  "ex_json_loads ex_nested = Inr ex_nested_site
   \<and> put_to_dss ex_lib ex_nested_site [] = Inr ([], None, [''//03198000/STAGE//15MINUTE/A2W/''])
   \<and> main_loop ex_lib ex_nested [] [] [] = Inl ValueError"
  by code_simp

text \<open>
  C1, amended.  An exception of \<open>dss.put\<close> is caught inside \<open>put_to_dss\<close>: it is printed,
  the function returns the message \<open>Site: "<site_number>" not saved to DSS\<close>, and the store
  is as before.  In the loop, a record (with no \<open>}\<close> before its last byte) for which the
  write fails is followed by the exception and the message in the output, and the loop
  goes on with the bytes behind it; a record that is written is followed by nothing.
  A record whose code is not in \<open>usgs_code\<close> is not skipped: the loop ends with
  \<open>KeyError\<close>, whatever follows in the stream.
\<close>

theorem put_failure_does_not_stop_the_loop:
  "(put_to_dss_container lib st = Inr c \<and> dss_put lib c store = Inl ex \<longrightarrow>
      put_to_dss lib st store
        = Inr ([Exc ex], Some (''Site: \"'' @ site_number st @ ''\" not saved to DSS''), store))
   \<and> (CHR ''}'' \<notin> set body1 \<and> json_loads lib1 (body1 @ ''}'') = Inr st1 \<and> message st1 = None
        \<and> put_to_dss_container lib1 st1 = Inr c1 \<and> dss_put lib1 c1 store1 = Inl ex1 \<longrightarrow>
      main_loop lib1 (body1 @ ''}'' @ rest1) [] store1 out1
        = main_loop lib1 rest1 [] store1
            (out1 @ [Text (body1 @ ''}''), Exc ex1,
                     Text (''Site: \"'' @ site_number st1 @ ''\" not saved to DSS'')]))
   \<and> (CHR ''}'' \<notin> set body2 \<and> json_loads lib2 (body2 @ ''}'') = Inr st2 \<and> message st2 = None
        \<and> put_to_dss_container lib2 st2 = Inr c2 \<and> dss_put lib2 c2 store2 = Inr store2' \<longrightarrow>
      main_loop lib2 (body2 @ ''}'' @ rest2) [] store2 out2
        = main_loop lib2 rest2 [] store2' (out2 @ [Text (body2 @ ''}'')]))
   \<and> (CHR ''}'' \<notin> set body3 \<and> json_loads lib3 (body3 @ ''}'') = Inr st3 \<and> message st3 = None
        \<and> map_of usgs_code (code st3) = None \<longrightarrow>
      main_loop lib3 (body3 @ ''}'' @ rest3) [] store3 out3 = Inl KeyError)"
proof (intro conjI impI)
  assume "put_to_dss_container lib st = Inr c \<and> dss_put lib c store = Inl ex"
  then show "put_to_dss lib st store
        = Inr ([Exc ex], Some (''Site: \"'' @ site_number st @ ''\" not saved to DSS''), store)"
    by (simp add: put_to_dss_def)
next
  assume a: "CHR ''}'' \<notin> set body1 \<and> json_loads lib1 (body1 @ ''}'') = Inr st1 \<and> message st1 = None
        \<and> put_to_dss_container lib1 st1 = Inr c1 \<and> dss_put lib1 c1 store1 = Inl ex1"
  then have "CHR ''}'' \<notin> set body1" by simp
  from main_loop_record [OF this, of lib1 rest1 store1 out1] a
  show "main_loop lib1 (body1 @ ''}'' @ rest1) [] store1 out1
        = main_loop lib1 rest1 [] store1
            (out1 @ [Text (body1 @ ''}''), Exc ex1,
                     Text (''Site: \"'' @ site_number st1 @ ''\" not saved to DSS'')])"
    by (simp add: put_to_dss_def)
next
  assume a: "CHR ''}'' \<notin> set body2 \<and> json_loads lib2 (body2 @ ''}'') = Inr st2 \<and> message st2 = None
        \<and> put_to_dss_container lib2 st2 = Inr c2 \<and> dss_put lib2 c2 store2 = Inr store2'"
  then have "CHR ''}'' \<notin> set body2" by simp
  from main_loop_record [OF this, of lib2 rest2 store2 out2] a
  show "main_loop lib2 (body2 @ ''}'' @ rest2) [] store2 out2
        = main_loop lib2 rest2 [] store2' (out2 @ [Text (body2 @ ''}'')])"
    by (simp add: put_to_dss_def)
next
  assume a: "CHR ''}'' \<notin> set body3 \<and> json_loads lib3 (body3 @ ''}'') = Inr st3 \<and> message st3 = None
        \<and> map_of usgs_code (code st3) = None"
  then have "CHR ''}'' \<notin> set body3" by simp
  from main_loop_record [OF this, of lib3 rest3 store3 out3] a
  show "main_loop lib3 (body3 @ ''}'' @ rest3) [] store3 out3 = Inl KeyError"
    by (simp add: put_to_dss_def put_to_dss_container_def)
qed

text \<open>
  C1, as the claim states it, fails: a record with the code 99999 raises \<open>KeyError\<close> out
  of the loop, and the valid record behind it, which alone would be written, is never
  reached.
\<close>

theorem unknown_code_ends_the_loop:
  "ex_json_loads ex_unknown = Inr ex_unknown_site
   \<and> map_of usgs_code (code ex_unknown_site) = None
   \<and> main_loop ex_lib (ex_unknown @ ex_flow) [] [] [] = Inl KeyError
   \<and> main_loop ex_lib ex_flow [] [] []
       = Inr ([], [''//03197000/FLOW//1HOUR/A2W/''], [Text ex_flow])"
  by code_simp

text \<open>
  A flat record followed by another one.
\<close>

theorem record_without_inner_brace_is_one_unit_witness:
  "CHR ''}'' \<notin> set (butlast ex_stage)
   \<and> butlast ex_stage @ ''}'' = ex_stage
   \<and> json_loads ex_lib (butlast ex_stage @ ''}'') = Inr ex_stage_site
   \<and> message ex_stage_site = None
   \<and> put_to_dss ex_lib ex_stage_site [] = Inr ([], None, [''//03197000/STAGE//15MINUTE/A2W/''])
   \<and> main_loop ex_lib (butlast ex_stage @ ''}'' @ ex_flow) [] [] []
       = main_loop ex_lib ex_flow [] [''//03197000/STAGE//15MINUTE/A2W/''] [Text ex_stage]
   \<and> main_loop ex_lib (ex_stage @ ex_flow) [] [] []
       = Inr ([], [''//03197000/STAGE//15MINUTE/A2W/'', ''//03197000/FLOW//1HOUR/A2W/''],
              [Text ex_stage, Text ex_flow])"
proof -
  have h1: "CHR ''}'' \<notin> set (butlast ex_stage)" by code_simp
  have e: "butlast ex_stage @ ''}'' = ex_stage" by code_simp
  have h2: "json_loads ex_lib (butlast ex_stage @ ''}'') = Inr ex_stage_site" by code_simp
  have h3: "message ex_stage_site = None" by code_simp
  have h4: "put_to_dss ex_lib ex_stage_site [] = Inr ([], None, [''//03197000/STAGE//15MINUTE/A2W/''])"
    by code_simp
  have all: "main_loop ex_lib (ex_stage @ ex_flow) [] [] []
       = Inr ([], [''//03197000/STAGE//15MINUTE/A2W/'', ''//03197000/FLOW//1HOUR/A2W/''],
              [Text ex_stage, Text ex_flow])"
    by code_simp
  from record_without_inner_brace_is_one_unit [OF h1 h2 h3 h4, of ex_flow "[]"]
  have "main_loop ex_lib (butlast ex_stage @ ''}'' @ ex_flow) [] [] []
       = main_loop ex_lib ex_flow [] [''//03197000/STAGE//15MINUTE/A2W/''] [Text ex_stage]"
    using e by simp
  with h1 e h2 h3 h4 all show ?thesis by blast
qed

text \<open>
  The same record sent twice, so that the second write is rejected, followed by a third
  record; and a stream that starts with an unknown code.
\<close>

theorem put_failure_does_not_stop_the_loop_witness:
  "(put_to_dss_container ex_lib ex_stage_site
      = Inr \<lparr>fullName = ''//03197000/STAGE//15MINUTE/A2W/'', location = [], parameter = ''Stage'',
             tsc_type = ''inst-val'', version = ''a2w'', interval = Some 15, units = ''feet'',
             tsc_times = [0, 15, 30], tsc_values = [7, 8, 9], numberValues = 3, startTime = 0,
             endTime = 30\<rparr>
     \<and> dss_put ex_lib \<lparr>fullName = ''//03197000/STAGE//15MINUTE/A2W/'', location = [], parameter = ''Stage'',
             tsc_type = ''inst-val'', version = ''a2w'', interval = Some 15, units = ''feet'',
             tsc_times = [0, 15, 30], tsc_values = [7, 8, 9], numberValues = 3, startTime = 0,
             endTime = 30\<rparr> [''//03197000/STAGE//15MINUTE/A2W/'']
         = Inl (LibraryError ''record exists''))
   \<and> put_to_dss ex_lib ex_stage_site [''//03197000/STAGE//15MINUTE/A2W/'']
       = Inr ([Exc (LibraryError ''record exists'')], Some ''Site: \"03197000\" not saved to DSS'',
              [''//03197000/STAGE//15MINUTE/A2W/''])
   \<and> (CHR ''}'' \<notin> set (butlast ex_stage) \<and> json_loads ex_lib (butlast ex_stage @ ''}'') = Inr ex_stage_site
        \<and> message ex_stage_site = None)
   \<and> main_loop ex_lib (butlast ex_stage @ ''}'' @ ex_flow) [] [''//03197000/STAGE//15MINUTE/A2W/''] []
       = main_loop ex_lib ex_flow [] [''//03197000/STAGE//15MINUTE/A2W/'']
           [Text (butlast ex_stage @ ''}''), Exc (LibraryError ''record exists''),
            Text ''Site: \"03197000\" not saved to DSS'']
   \<and> dss_put ex_lib \<lparr>fullName = ''//03197000/STAGE//15MINUTE/A2W/'', location = [], parameter = ''Stage'',
             tsc_type = ''inst-val'', version = ''a2w'', interval = Some 15, units = ''feet'',
             tsc_times = [0, 15, 30], tsc_values = [7, 8, 9], numberValues = 3, startTime = 0,
             endTime = 30\<rparr> [] = Inr [''//03197000/STAGE//15MINUTE/A2W/'']
   \<and> main_loop ex_lib (butlast ex_stage @ ''}'' @ ex_stage @ ex_flow) [] [] []
       = main_loop ex_lib (ex_stage @ ex_flow) [] [''//03197000/STAGE//15MINUTE/A2W/'']
           [Text (butlast ex_stage @ ''}'')]
   \<and> (CHR ''}'' \<notin> set (butlast ex_unknown) \<and> json_loads ex_lib (butlast ex_unknown @ ''}'') = Inr ex_unknown_site
        \<and> message ex_unknown_site = None \<and> map_of usgs_code (code ex_unknown_site) = None)
   \<and> main_loop ex_lib (butlast ex_unknown @ ''}'' @ ex_flow) [] [] [] = Inl KeyError
   \<and> main_loop ex_lib (ex_stage @ ex_stage @ ex_flow) [] [] []
       = Inr ([], [''//03197000/STAGE//15MINUTE/A2W/'', ''//03197000/FLOW//1HOUR/A2W/''],
              [Text ex_stage, Text ex_stage, Exc (LibraryError ''record exists''),
               Text ''Site: \"03197000\" not saved to DSS'', Text ex_flow])"
proof -
  let ?c = "\<lparr>fullName = ''//03197000/STAGE//15MINUTE/A2W/'', location = [], parameter = ''Stage'',
             tsc_type = ''inst-val'', version = ''a2w'', interval = Some 15, units = ''feet'',
             tsc_times = [0, 15, 30], tsc_values = [7, 8, 9], numberValues = 3, startTime = 0,
             endTime = 30\<rparr>"
  let ?held = "[''//03197000/STAGE//15MINUTE/A2W/'']"
  have c: "put_to_dss_container ex_lib ex_stage_site = Inr ?c" by code_simp
  have f: "dss_put ex_lib ?c ?held = Inl (LibraryError ''record exists'')" by code_simp
  have ok: "dss_put ex_lib ?c [] = Inr ?held" by code_simp
  have b1: "CHR ''}'' \<notin> set (butlast ex_stage)" by code_simp
  have j1: "json_loads ex_lib (butlast ex_stage @ ''}'') = Inr ex_stage_site" by code_simp
  have m1: "message ex_stage_site = None" by code_simp
  have b3: "CHR ''}'' \<notin> set (butlast ex_unknown)" by code_simp
  have j3: "json_loads ex_lib (butlast ex_unknown @ ''}'') = Inr ex_unknown_site" by code_simp
  have m3: "message ex_unknown_site = None" by code_simp
  have k3: "map_of usgs_code (code ex_unknown_site) = None" by code_simp
  have sn: "site_number ex_stage_site = ''03197000''" by code_simp
  have all: "main_loop ex_lib (ex_stage @ ex_stage @ ex_flow) [] [] []
       = Inr ([], [''//03197000/STAGE//15MINUTE/A2W/'', ''//03197000/FLOW//1HOUR/A2W/''],
              [Text ex_stage, Text ex_stage, Exc (LibraryError ''record exists''),
               Text ''Site: \"03197000\" not saved to DSS'', Text ex_flow])"
    by code_simp
  from put_failure_does_not_stop_the_loop [of ex_lib ex_stage_site ?c ?held "LibraryError ''record exists''"
      "butlast ex_stage" ex_lib ex_stage_site ?c ?held "LibraryError ''record exists''" ex_flow "[]"
      "butlast ex_stage" ex_lib ex_stage_site ?c "[]" ?held "ex_stage @ ex_flow" "[]"
      "butlast ex_unknown" ex_lib ex_unknown_site ex_flow "[]" "[]"]
    c f ok b1 j1 m1 b3 j3 m3 k3 sn all
  show ?thesis by simp
qed


end
